theory Spec2Isabelle
  imports Complex_Main
begin

section \<open>Text, dates and the values of the Python runtime\<close>

text \<open>
  A Python \<open>str\<close> is a sequence of Unicode code points, so a string of the program
  is a list of code points. The literals of \<open>app.py\<close> that are not ASCII are written
  by their code points (in hexadecimal), the ASCII parts through \<open>asc\<close>.
\<close>

type_synonym str = "nat list"

definition asc :: "string \<Rightarrow> str" where
  "asc s = map of_char s"

text \<open>
  A date is its proleptic Gregorian day number (\<open>date.toordinal()\<close>): day 1 is
  0001-01-01 and \<open>date.max\<close> is day 3652059. Adding a \<open>timedelta\<close> of whole days
  adds to the day number; the comparison of two dates is the comparison of their
  day numbers.
\<close>

type_synonym date = int

text \<open>\<open>range(n)\<close>\<close>

definition py_range :: "nat \<Rightarrow> int list" where
  "py_range n = map int [0..<n]"

text \<open>
  \<open>pd.date_range(start, periods=n, freq='D')\<close>: \<open>n\<close> consecutive days from
  \<open>start\<close>. \<open>pd.to_datetime\<close> of the index it returns is that index.
\<close>

definition date_range :: "date \<Rightarrow> nat \<Rightarrow> date list" where
  "date_range start periods = map (\<lambda>i. start + i) (py_range periods)"

text \<open>The day number of \<open>'2025-01-01'\<close>.\<close>

definition d_2025_01_01 :: date where
  "d_2025_01_01 = 739252"

section \<open>The synthetic candlestick chart (app.py, lines 15 to 42)\<close>

record dataframe =
  Date :: "date list"
  Open :: "int list"
  High :: "int list"
  Low :: "int list"
  Close :: "int list"

record candlestick =
  cs_x :: "date list"
  cs_open :: "int list"
  cs_high :: "int list"
  cs_low :: "int list"
  cs_close :: "int list"
  cs_name :: str

record figure =
  fig_data :: "candlestick list"
  fig_title :: str
  fig_xaxis_rangeslider_visible :: bool
  fig_height :: int

text \<open>The dictionary \<open>data\<close> of lines 18 to 24 and the frame \<open>df\<close> built from it.\<close>

definition df :: dataframe where
  "df = \<lparr> Date = date_range d_2025_01_01 100,
          Open = map (\<lambda>i. 100 + i mod 10) (py_range 100),
          High = map (\<lambda>i. 105 + i mod 10) (py_range 100),
          Low = map (\<lambda>i. 95 + i mod 10) (py_range 100),
          Close = map (\<lambda>i. 102 + i mod 10) (py_range 100) \<rparr>"

definition get_dummy_candlestick_chart :: "str \<Rightarrow> figure" where
  "get_dummy_candlestick_chart ticker =
     \<lparr> fig_data = [\<lparr> cs_x = Date df, cs_open = Open df, cs_high = High df,
                      cs_low = Low df, cs_close = Close df,
                      cs_name = asc ''Candlestick'' \<rparr>],
       fig_title = ticker @ asc '' '' @ [0x80A1, 0x50F9, 0x8D70, 0x52E2] @ asc '' (''
                     @ [0x6A21, 0x64EC, 0x6578, 0x64DA] @ asc '')'',
       fig_xaxis_rangeslider_visible = False,
       fig_height = 500 \<rparr>"

section \<open>What the script reads from the runtime and from \<open>str\<close>, \<open>date\<close>\<close>

text \<open>
  The script reads the clock once (\<open>date.today()\<close>, line 47) and calls \<open>str.upper\<close>
  (line 53), whose Unicode case mapping is a table of the Python runtime: both are
  fields of the runtime the script runs on.
\<close>

record runtime =
  today :: date
  upper :: "str \<Rightarrow> str"

datatype error = OverflowError | KeyError

text \<open>
  \<open>d - timedelta(days=n)\<close> raises \<open>OverflowError\<close> when the result leaves
  \<open>date.min .. date.max\<close>.
\<close>

definition date_sub_days :: "date \<Rightarrow> int \<Rightarrow> error + date" where
  "date_sub_days d n =
     (if 1 \<le> d - n \<and> d - n \<le> 3652059 then Inr (d - n) else Inl OverflowError)"

text \<open>\<open>str(i)\<close> of an \<open>int\<close>, as an f-string renders it: decimal digits, a minus sign.\<close>

fun digits :: "nat \<Rightarrow> str" where
  "digits n = (if n < 10 then [48 + n] else digits (n div 10) @ [48 + n mod 10])"

declare digits.simps [simp del]

definition str_int :: "int \<Rightarrow> str" where
  "str_int i = (if i < 0 then 45 # digits (nat (- i)) else digits (nat i))"

definition zfill :: "nat \<Rightarrow> str \<Rightarrow> str" where
  "zfill width s = replicate (width - length s) 48 @ s"

text \<open>
  \<open>str(d)\<close> of a \<open>date\<close> is \<open>d.isoformat()\<close>, \<open>YYYY-MM-DD\<close>. The year, month and
  day of a day number are computed as \<open>datetime\<close> does (\<open>_ord2ymd\<close>): by 400-year,
  100-year and 4-year cycles, then an estimate of the month that is corrected once.
\<close>

definition days_before_month :: "int list" where
  "days_before_month = [-1, 0, 31, 59, 90, 120, 151, 181, 212, 243, 273, 304, 334]"

definition days_in_month :: "int list" where
  "days_in_month = [-1, 31, 28, 31, 30, 31, 30, 31, 31, 30, 31, 30, 31]"

definition ord2ymd :: "date \<Rightarrow> int \<times> int \<times> int" where
  "ord2ymd ordinal =
     (let n = ordinal - 1;
          n400 = n div 146097; n = n mod 146097;
          n100 = n div 36524; n = n mod 36524;
          n4 = n div 1461; n = n mod 1461;
          n1 = n div 365; n = n mod 365;
          year = n400 * 400 + 1 + n100 * 100 + n4 * 4 + n1
      in if n1 = 4 \<or> n100 = 4 then (year - 1, 12, 31)
         else
           let leapyear = (n1 = 3 \<and> (n4 \<noteq> 24 \<or> n100 = 3));
               month = (n + 50) div 32;
               preceding = days_before_month ! nat month
                             + (if month > 2 \<and> leapyear then 1 else 0)
           in if preceding > n
              then let month' = month - 1;
                       preceding' = preceding
                         - (days_in_month ! nat month'
                              + (if month' = 2 \<and> leapyear then 1 else 0))
                   in (year, month', n - preceding' + 1)
              else (year, month, n - preceding + 1))"

text \<open>
  The day number of a year, month and day (\<open>date(y, m, d).toordinal()\<close>), and
  \<open>d.replace(year=d.year + years)\<close> as a date input uses it for the range it offers:
  29 February becomes 28 February where the new year has none, and there is no such
  date where the new year leaves \<open>1 .. 9999\<close>.
\<close>

definition is_leap :: "int \<Rightarrow> bool" where
  "is_leap year = (year mod 4 = 0 \<and> (year mod 100 \<noteq> 0 \<or> year mod 400 = 0))"

definition days_before_year :: "int \<Rightarrow> int" where
  "days_before_year year =
     (let y = year - 1 in y * 365 + y div 4 - y div 100 + y div 400)"

definition ymd2ord :: "int \<Rightarrow> int \<Rightarrow> int \<Rightarrow> date" where
  "ymd2ord year month day =
     days_before_year year + days_before_month ! nat month
       + (if month > 2 \<and> is_leap year then 1 else 0) + day"

definition adjust_years :: "date \<Rightarrow> int \<Rightarrow> date option" where
  "adjust_years d years =
     (case ord2ymd d of (y, m, dd) \<Rightarrow>
        if y + years < 1 \<or> 9999 < y + years then None
        else if m = 2 \<and> dd = 29 \<and> \<not> is_leap (y + years)
        then Some (ymd2ord (y + years) 2 28)
        else Some (ymd2ord (y + years) m dd))"

definition isoformat :: "date \<Rightarrow> str" where
  "isoformat d =
     (case ord2ymd d of (y, m, dd) \<Rightarrow>
        zfill 4 (str_int y) @ asc ''-'' @ zfill 2 (str_int m) @ asc ''-'' @ zfill 2 (str_int dd))"

section \<open>Widgets and page elements\<close>

text \<open>
  Streamlit runs the script from top to bottom on every interaction. A widget call
  returns the value the user has set on that widget, or the default given in the call
  when the user has not touched it. The values set by the user are the input of one run.
  \<open>None\<close> is an untouched widget; \<open>w_run\<close> says whether the run was started by a
  click on the button of line 93.

  A widget without a key is identified by the arguments of its call. The arguments of
  the text input, the selectbox and the sliders are constants of the script; the value
  argument of the two date inputs comes from the clock (lines 47, 48, 57 and 58). What
  the user has set on a date input is therefore kept with the value argument of the
  widget it was set on: \<open>Some (value, d)\<close> is the date \<open>d\<close> set on the date input
  whose value argument was \<open>value\<close>.
\<close>

record widgets =
  w_ticker :: "str option"
  w_start :: "(date \<times> date) option"
  w_end :: "(date \<times> date) option"
  w_strategy :: "str option"
  w_fast_ma :: "int option"
  w_slow_ma :: "int option"
  w_period :: "int option"
  w_rsi_buy :: "int option"
  w_rsi_sell :: "int option"
  w_run :: bool

text \<open>The arguments of a \<open>slider\<close> call: label, \<open>min_value\<close>, \<open>max_value\<close>, \<open>value\<close>.\<close>

record slider_args =
  sl_label :: str
  sl_min :: int
  sl_max :: int
  sl_value :: int

definition text_input :: "str \<Rightarrow> str option \<Rightarrow> str" where
  "text_input value st = (case st of None \<Rightarrow> value | Some v \<Rightarrow> v)"

text \<open>
  A date input called without \<open>min_value\<close> and \<open>max_value\<close> offers the dates from ten
  years before its value argument to ten years after it.
\<close>

definition date_offered :: "date \<Rightarrow> date \<Rightarrow> bool" where
  "date_offered value d =
     (case (adjust_years value (- 10), adjust_years value 10) of
        (Some min_value, Some max_value) \<Rightarrow> min_value \<le> d \<and> d \<le> max_value
      | _ \<Rightarrow> False)"

text \<open>
  A date input returns the date set on it; it returns its value argument when it is
  untouched, when the date was set on the date input of another value argument (a new
  day has made it a new widget), and when the date is none that it offers.
\<close>

definition date_input :: "date \<Rightarrow> (date \<times> date) option \<Rightarrow> date" where
  "date_input value st =
     (case st of
        None \<Rightarrow> value
      | Some (set_on, d) \<Rightarrow> if set_on = value \<and> date_offered value d then d else value)"

text \<open>An untouched \<open>selectbox\<close> returns its first option, and \<open>None\<close> when it has none.\<close>

definition selectbox :: "str list \<Rightarrow> str option \<Rightarrow> str option" where
  "selectbox options st =
     (case st of
        None \<Rightarrow> (case options of [] \<Rightarrow> None | x # _ \<Rightarrow> Some x)
      | Some v \<Rightarrow> Some v)"

definition slider :: "slider_args \<Rightarrow> int option \<Rightarrow> int" where
  "slider args st = (case st of None \<Rightarrow> sl_value args | Some v \<Rightarrow> v)"

text \<open>
  What the page shows. A widget element carries the arguments of its call and the
  value it holds in this run: a date input its label, its value argument and the date
  it returns.
\<close>

datatype element =
    Title str
  | Header str
  | Subheader str
  | Markdown str
  | Caption str
  | Info str
  | Success str
  | Warning str
  | TextInput str str
  | DateInput str date date
  | Selectbox str "str list" "str option"
  | Slider slider_args int
  | Button str
  | PlotlyChart figure
  | DataFrame "(str \<times> str list) list"
  | Tabs "(str \<times> element list) list"

record page_config =
  page_title :: str
  layout :: str
  initial_sidebar_state :: str

record page =
  config :: page_config
  sidebar :: "element list"
  main_area :: "element list"

section \<open>The script (app.py, lines 44 to 146)\<close>

subsection \<open>The values the script binds\<close>

text \<open>Line 48.\<close>

definition default_start_date :: "runtime \<Rightarrow> error + date" where
  "default_start_date rt = date_sub_days (today rt) (10 * 365)"

text \<open>Line 53.\<close>

definition ticker :: "runtime \<Rightarrow> widgets \<Rightarrow> str" where
  "ticker rt w = upper rt (text_input (asc ''AAPL'') (w_ticker w))"

text \<open>Lines 57 and 58.\<close>

definition start_date :: "date \<Rightarrow> widgets \<Rightarrow> date" where
  "start_date dflt w = date_input dflt (w_start w)"

definition end_date :: "runtime \<Rightarrow> widgets \<Rightarrow> date" where
  "end_date rt w = date_input (today rt) (w_end w)"

text \<open>Lines 62 to 66: the dictionary, in the order of its keys.\<close>

definition strategy_options :: "(str \<times> str) list" where
  "strategy_options =
     [([0x5747, 0x7DDA, 0x4EA4, 0x53C9, 0x7B56, 0x7565], asc ''GoldenCross''),
      ([0x7A81, 0x7834, 0x7B56, 0x7565], asc ''Breakout''),
      ([0x591A, 0x56E0, 0x5B50, 0x7D9C, 0x5408, 0x7B56, 0x7565], asc ''MultiFactor'')]"

text \<open>Lines 67 to 70.\<close>

definition selected_strategy_name :: "widgets \<Rightarrow> str option" where
  "selected_strategy_name w = selectbox (map fst strategy_options) (w_strategy w)"

text \<open>Line 71: a subscript with a key the dictionary does not have raises \<open>KeyError\<close>.\<close>

definition selected_strategy_key :: "widgets \<Rightarrow> error + str" where
  "selected_strategy_key w =
     (case selected_strategy_name w of
        None \<Rightarrow> Inl KeyError
      | Some name \<Rightarrow>
          (case map_of strategy_options name of
             None \<Rightarrow> Inl KeyError
           | Some key \<Rightarrow> Inr key))"

text \<open>Lines 78, 79, 83, 87 and 88: the five sliders and the values they return.\<close>

definition fast_ma_slider :: slider_args where
  "fast_ma_slider =
     \<lparr> sl_label = [0x77ED, 0x671F, 0x5747, 0x7DDA] @ asc '' (Fast MA)'',
       sl_min = 5, sl_max = 60, sl_value = 20 \<rparr>"

definition slow_ma_slider :: slider_args where
  "slow_ma_slider =
     \<lparr> sl_label = [0x9577, 0x671F, 0x5747, 0x7DDA] @ asc '' (Slow MA)'',
       sl_min = 50, sl_max = 300, sl_value = 60 \<rparr>"

definition period_slider :: slider_args where
  "period_slider =
     \<lparr> sl_label = [0x7A81, 0x7834, 0x9031, 0x671F] @ asc '' (Period)'',
       sl_min = 5, sl_max = 100, sl_value = 20 \<rparr>"

definition rsi_buy_slider :: slider_args where
  "rsi_buy_slider =
     \<lparr> sl_label = asc ''RSI '' @ [0x8CB7, 0x5165, 0x95BE, 0x503C],
       sl_min = 10, sl_max = 40, sl_value = 30 \<rparr>"

definition rsi_sell_slider :: slider_args where
  "rsi_sell_slider =
     \<lparr> sl_label = asc ''RSI '' @ [0x8CE3, 0x51FA, 0x95BE, 0x503C],
       sl_min = 60, sl_max = 90, sl_value = 70 \<rparr>"

definition fast_ma :: "widgets \<Rightarrow> int" where
  "fast_ma w = slider fast_ma_slider (w_fast_ma w)"

definition slow_ma :: "widgets \<Rightarrow> int" where
  "slow_ma w = slider slow_ma_slider (w_slow_ma w)"

definition period :: "widgets \<Rightarrow> int" where
  "period w = slider period_slider (w_period w)"

definition rsi_buy :: "widgets \<Rightarrow> int" where
  "rsi_buy w = slider rsi_buy_slider (w_rsi_buy w)"

definition rsi_sell :: "widgets \<Rightarrow> int" where
  "rsi_sell w = slider rsi_sell_slider (w_rsi_sell w)"

subsection \<open>The sidebar (lines 50 to 95)\<close>

text \<open>Lines 77 to 89: the chain of \<open>if\<close> and \<open>elif\<close> over the strategy key; it has no \<open>else\<close>.\<close>

definition parameter_controls :: "str \<Rightarrow> widgets \<Rightarrow> element list" where
  "parameter_controls key w =
     (if key = asc ''GoldenCross'' then
        [Slider fast_ma_slider (fast_ma w),
         Slider slow_ma_slider (slow_ma w),
         Info ([0x7B56, 0x7565, 0x53C3, 0x6578] @ asc '': '' @ [0x77ED, 0x671F] @ asc '' ''
                 @ str_int (fast_ma w) @ asc '' '' @ [0x65E5] @ asc '', '' @ [0x9577, 0x671F]
                 @ asc '' '' @ str_int (slow_ma w) @ asc '' '' @ [0x65E5])]
      else if key = asc ''Breakout'' then
        [Slider period_slider (period w),
         Info ([0x7B56, 0x7565, 0x53C3, 0x6578] @ asc '': '' @ str_int (period w)
                 @ asc '' '' @ [0x65E5, 0x7A81, 0x7834])]
      else if key = asc ''MultiFactor'' then
        [Slider rsi_buy_slider (rsi_buy w),
         Slider rsi_sell_slider (rsi_sell w),
         Info ([0x7B56, 0x7565, 0x53C3, 0x6578] @ asc '': RSI '' @ [0x8CB7, 0x5165]
                 @ asc '' < '' @ str_int (rsi_buy w) @ asc '', '' @ [0x8CE3, 0x51FA]
                 @ asc '' > '' @ str_int (rsi_sell w))]
      else [])"

text \<open>
  Lines 92 to 95: the button, and what its handler does when the run was started by a
  click. The handler is one call; the comment under it names a function that the
  script does not call.
\<close>

definition run_backtest_button :: "widgets \<Rightarrow> element list" where
  "run_backtest_button w =
     [Markdown (asc ''---''),
      Button ([0x1F680] @ asc '' '' @ [0x57F7, 0x884C, 0x7B56, 0x7565, 0x56DE, 0x6E2C])]
     @ (if w_run w
        then [Success ([0x56DE, 0x6E2C, 0x8ACB, 0x6C42, 0x5DF2, 0x9001, 0x51FA] @ asc ''...'')]
        else [])"

definition sidebar_elements ::
  "runtime \<Rightarrow> widgets \<Rightarrow> date \<Rightarrow> str option \<Rightarrow> str \<Rightarrow> element list" where
  "sidebar_elements rt w dflt name key =
     [Title ([0x1F4C8] @ asc '' '' @ [0x80A1, 0x5E02, 0x5206, 0x6790, 0x5100]),
      TextInput [0x8ACB, 0x8F38, 0x5165, 0x7F8E, 0x80A1, 0x4EE3, 0x78BC]
        (text_input (asc ''AAPL'') (w_ticker w)),
      Subheader ([0x1F4C5] @ asc '' '' @ [0x5206, 0x6790, 0x65E5, 0x671F, 0x7BC4, 0x570D]),
      DateInput [0x8D77, 0x59CB, 0x65E5, 0x671F] dflt (start_date dflt w),
      DateInput [0x7D50, 0x675F, 0x65E5, 0x671F] (today rt) (end_date rt w),
      Subheader ([0x2699, 0xFE0F] @ asc '' '' @ [0x7B56, 0x7565, 0x56DE, 0x6E2C, 0x8A2D, 0x5B9A]),
      Selectbox [0x9078, 0x64C7, 0x56DE, 0x6E2C, 0x7B56, 0x7565]
        (map fst strategy_options) name,
      Markdown (asc ''---''),
      Subheader [0x53C3, 0x6578, 0x8ABF, 0x6574]]
     @ parameter_controls key w
     @ run_backtest_button w"

subsection \<open>The main area (lines 99 to 146)\<close>

text \<open>Lines 111 to 116.\<close>

definition tab1 :: "str \<Rightarrow> element list" where
  "tab1 tk =
     [Header [0x7E3D, 0x89BD],
      Info ([0x6B63, 0x5728, 0x986F, 0x793A] @ asc '' '' @ tk @ asc '' ''
              @ [0x7684, 0x516C, 0x53F8, 0x57FA, 0x672C, 0x8CC7, 0x8A0A, 0x8207, 0x80A1, 0x50F9,
                 0x6458, 0x8981] @ asc ''...''),
      Subheader [0x80A1, 0x50F9, 0x8D70, 0x52E2],
      PlotlyChart (get_dummy_candlestick_chart tk)]"

text \<open>Lines 118 to 131.\<close>

definition tab2 :: "element list" where
  "tab2 =
     [Header [0x57FA, 0x672C, 0x9762, 0x5206, 0x6790],
      Warning [0x6B64, 0x8655, 0x5C07, 0x986F, 0x793A, 0x8CA1, 0x52D9, 0x5831, 0x8868, 0x8DA8,
               0x52E2, 0x5716, 0x8207, 0x8CA1, 0x52D9, 0x6BD4, 0x7387, 0x8868, 0x683C, 0x3002]]"

definition tab3 :: "element list" where
  "tab3 =
     [Header [0x6280, 0x8853, 0x9762, 0x5206, 0x6790],
      Warning ([0x6B64, 0x8655, 0x5C07, 0x986F, 0x793A, 0x53EF, 0x758A, 0x52A0, 0x6280, 0x8853,
                0x6307, 0x6A19, 0x7684, 0x4E92, 0x52D5, 0x5F0F] @ asc '' K ''
                 @ [0x7DDA, 0x5716, 0x3002])]"

definition tab4 :: "element list" where
  "tab4 =
     [Header [0x5FC3, 0x7406, 0x9762, 0x5206, 0x6790],
      Warning ([0x6B64, 0x8655, 0x5C07, 0x986F, 0x793A] @ asc '' VIX ''
                 @ [0x6050, 0x614C, 0x6307, 0x6578, 0x5716, 0x8207, 0x65B0, 0x805E, 0x60C5, 0x7DD2,
                    0x5206, 0x6790, 0x7D50, 0x679C, 0x3002])]"

text \<open>Lines 138 to 141: the frame of the metrics, column by column.\<close>

definition metrics :: "(str \<times> str list) list" where
  "metrics =
     [([0x6307, 0x6A19],
       [[0x5E74, 0x5316, 0x5831, 0x916C, 0x7387], [0x6700, 0x5927, 0x56DE, 0x64A4],
        [0x590F, 0x666E, 0x6BD4, 0x7387]]),
      ([0x6578, 0x503C], [asc ''25.5%'', asc ''-15.2%'', asc ''1.5''])]"

text \<open>
  Lines 133 to 143. The name is a \<open>str\<close> here: line 71 has raised otherwise. An
  f-string renders \<open>None\<close> by its name.
\<close>

definition tab5 :: "str option \<Rightarrow> element list" where
  "tab5 name =
     [Header [0x7B56, 0x7565, 0x56DE, 0x6E2C, 0x7D50, 0x679C],
      Warning ([0x7576, 0x524D, 0x9078, 0x64C7, 0x7B56, 0x7565] @ asc '': **''
                 @ (case name of None \<Rightarrow> asc ''None'' | Some n \<Rightarrow> n)
                 @ asc ''**'' @ [0x3002, 0x56DE, 0x6E2C, 0x7D50, 0x679C, 0x5C07, 0x5728, 0x6B64,
                                 0x8655, 0x5448, 0x73FE, 0x3002]),
      Subheader ([0x7E3E, 0x6548, 0x6307, 0x6A19] @ asc '' (Performance Metrics)''),
      DataFrame metrics,
      Subheader ([0x6B0A, 0x76CA, 0x66F2, 0x7DDA, 0x5716] @ asc '' (Equity Curve)'')]"

text \<open>Lines 103 to 109.\<close>

definition tab_labels :: "str list" where
  "tab_labels =
     [[0x7E3D, 0x89BD] @ asc '' (Overview)'',
      [0x57FA, 0x672C, 0x9762] @ asc '' (Fundamental)'',
      [0x6280, 0x8853, 0x9762] @ asc '' (Technical)'',
      [0x5FC3, 0x7406, 0x9762] @ asc '' (Sentiment)'',
      [0x7B56, 0x7565, 0x56DE, 0x6E2C] @ asc '' (Backtest)'']"

definition main_elements :: "runtime \<Rightarrow> widgets \<Rightarrow> date \<Rightarrow> str option \<Rightarrow> element list" where
  "main_elements rt w start name =
     [Title ([0x7F8E, 0x80A1, 0x7D9C, 0x5408, 0x5206, 0x6790, 0x7CFB, 0x7D71] @ asc '' - ''
               @ ticker rt w),
      Markdown ([0x5206, 0x6790, 0x671F, 0x9593] @ asc '': **'' @ isoformat start
                  @ asc ''** '' @ [0x81F3] @ asc '' **'' @ isoformat (end_date rt w)
                  @ asc ''**''),
      Tabs (zip tab_labels [tab1 (ticker rt w), tab2, tab3, tab4, tab5 name]),
      Markdown (asc ''---''),
      Caption ([0x672C, 0x61C9, 0x7528, 0x7A0B, 0x5F0F, 0x70BA, 0x7F8E, 0x80A1, 0x5206, 0x6790,
                0x7CFB, 0x7D71, 0x7684] @ asc '' Streamlit ''
                 @ [0x4ECB, 0x9762, 0x8A2D, 0x8A08, 0x7BC4, 0x4F8B, 0x3002])]"

subsection \<open>One run of the script\<close>

text \<open>Lines 7 to 11.\<close>

definition set_page_config :: page_config where
  "set_page_config =
     \<lparr> page_title = [0x7F8E, 0x80A1, 0x7D9C, 0x5408, 0x5206, 0x6790, 0x7CFB, 0x7D71]
                      @ asc '' (Streamlit UI '' @ [0x7BC4, 0x4F8B] @ asc '')'',
       layout = asc ''wide'',
       initial_sidebar_state = asc ''expanded'' \<rparr>"

text \<open>
  A run returns the page, or the exception that ended it: the two statements that can
  raise are line 48 and line 71.
\<close>

definition app :: "runtime \<Rightarrow> widgets \<Rightarrow> error + page" where
  "app rt w =
     (case default_start_date rt of
        Inl e \<Rightarrow> Inl e
      | Inr dflt \<Rightarrow>
          (case selected_strategy_key w of
             Inl e \<Rightarrow> Inl e
           | Inr key \<Rightarrow>
               Inr \<lparr> config = set_page_config,
                     sidebar = sidebar_elements rt w dflt (selected_strategy_name w) key,
                     main_area = main_elements rt w (start_date dflt w)
                                   (selected_strategy_name w) \<rparr>))"

section \<open>The inputs a user can give\<close>

text \<open>
  A slider offers the integers from \<open>min_value\<close> to \<open>max_value\<close>, a selectbox its
  options. A text input takes any string. A date input returns no date but those it
  offers, whatever is kept for it, so what is kept for it has no condition here.
\<close>

definition offered :: "slider_args \<Rightarrow> int option \<Rightarrow> bool" where
  "offered args st =
     (case st of None \<Rightarrow> True | Some v \<Rightarrow> sl_min args \<le> v \<and> v \<le> sl_max args)"

definition selectable :: "widgets \<Rightarrow> bool" where
  "selectable w =
     ((case w_strategy w of
         None \<Rightarrow> True
       | Some name \<Rightarrow> name \<in> set (map fst strategy_options))
      \<and> offered fast_ma_slider (w_fast_ma w)
      \<and> offered slow_ma_slider (w_slow_ma w)
      \<and> offered period_slider (w_period w)
      \<and> offered rsi_buy_slider (w_rsi_buy w)
      \<and> offered rsi_sell_slider (w_rsi_sell w))"

text \<open>The first run of a session: no widget has been touched.\<close>

definition untouched :: widgets where
  "untouched =
     \<lparr> w_ticker = None, w_start = None, w_end = None, w_strategy = None,
       w_fast_ma = None, w_slow_ma = None, w_period = None,
       w_rsi_buy = None, w_rsi_sell = None, w_run = False \<rparr>"

text \<open>
  A runtime to evaluate runs on: the clock reads the given day, and \<open>upper\<close> maps the
  letters \<open>a\<close> to \<open>z\<close> to \<open>A\<close> to \<open>Z\<close>, which is \<open>str.upper\<close> on ASCII strings.
\<close>

definition upper_ascii :: "str \<Rightarrow> str" where
  "upper_ascii s = map (\<lambda>c. if 97 \<le> c \<and> c \<le> 122 then c - 32 else c) s"

definition runtime_on :: "date \<Rightarrow> runtime" where
  "runtime_on d = \<lparr> today = d, upper = upper_ascii \<rparr>"

section \<open>Reading a page\<close>

text \<open>The content tabs of a page: the tabs of its main area, each with its label.\<close>

fun tabs_in :: "element \<Rightarrow> (str \<times> element list) list" where
  "tabs_in (Tabs ts) = ts"
| "tabs_in _ = []"

definition content_tabs :: "page \<Rightarrow> (str \<times> element list) list" where
  "content_tabs pg = concat (map tabs_in (main_area pg))"

text \<open>The entry of the metrics frame in the row of a given name.\<close>

definition metric_value :: "str \<Rightarrow> str option" where
  "metric_value name = map_of (zip (snd (metrics ! 0)) (snd (metrics ! 1))) name"

text \<open>
  The number an entry such as \<open>-15.2%\<close> denotes: a decimal numeral with an optional
  minus sign and an optional fractional part, followed by a percent sign, read as so
  many hundredths.
\<close>

definition is_digit :: "nat \<Rightarrow> bool" where
  "is_digit c = (48 \<le> c \<and> c \<le> 57)"

definition nat_of_digits :: "str \<Rightarrow> nat" where
  "nat_of_digits ds = foldl (\<lambda>a c. 10 * a + (c - 48)) 0 ds"

definition unsigned_decimal :: "str \<Rightarrow> rat option" where
  "unsigned_decimal s =
     (let whole = takeWhile is_digit s; rest = dropWhile is_digit s
      in if whole = [] then None
         else if rest = [] then Some (of_nat (nat_of_digits whole))
         else if hd rest = 46 \<and> tl rest \<noteq> [] \<and> list_all is_digit (tl rest)
         then Some (of_nat (nat_of_digits whole)
                      + of_nat (nat_of_digits (tl rest)) / 10 ^ length (tl rest))
         else None)"

definition decimal :: "str \<Rightarrow> rat option" where
  "decimal s =
     (case s of
        [] \<Rightarrow> None
      | c # cs \<Rightarrow> if c = 45 then map_option uminus (unsigned_decimal cs)
                  else unsigned_decimal s)"

definition percent_value :: "str \<Rightarrow> rat option" where
  "percent_value s =
     (if s \<noteq> [] \<and> last s = 37 then map_option (\<lambda>x. x / 100) (decimal (butlast s))
      else None)"

section \<open>The data of the chart\<close>

lemma length_py_range: "length (py_range n) = n"
  by (simp add: py_range_def)

lemma nth_py_range: "i < n \<Longrightarrow> py_range n ! i = int i"
  by (simp add: py_range_def)

lemma chart_trace:
  "fig_data (get_dummy_candlestick_chart tk) =
     [\<lparr> cs_x = Date df, cs_open = Open df, cs_high = High df, cs_low = Low df,
        cs_close = Close df, cs_name = asc ''Candlestick'' \<rparr>]"
  by (simp add: get_dummy_candlestick_chart_def)

text \<open>
  Claim C4. The dates of the series that \<open>get_dummy_candlestick_chart\<close> draws are
  strictly increasing, so no date occurs twice: for all indices \<open>i < j\<close> of the 100
  bars, \<open>Date[i] < Date[j]\<close>, whatever the ticker.
\<close>

theorem chart_dates_strictly_increasing:
  assumes "i < j" and "j < 100"
  shows "cs_x (hd (fig_data (get_dummy_candlestick_chart tk))) ! i
           < cs_x (hd (fig_data (get_dummy_candlestick_chart tk))) ! j"
proof -
  have i: "i < 100" using assms by simp
  have "Date df ! i = d_2025_01_01 + int i"
    using i by (simp add: df_def date_range_def length_py_range nth_py_range)
  moreover have "Date df ! j = d_2025_01_01 + int j"
    using assms(2) by (simp add: df_def date_range_def length_py_range nth_py_range)
  ultimately show ?thesis
    using assms(1) by (simp add: chart_trace)
qed

theorem chart_dates_strictly_increasing_witness:
  "(3::nat) < 7 \<and> (7::nat) < 100 \<and>
   cs_x (hd (fig_data (get_dummy_candlestick_chart (asc ''AAPL'')))) ! 3 = 739255 \<and>
   cs_x (hd (fig_data (get_dummy_candlestick_chart (asc ''AAPL'')))) ! 7 = 739259 \<and>
   cs_x (hd (fig_data (get_dummy_candlestick_chart (asc ''AAPL'')))) ! 3
     < cs_x (hd (fig_data (get_dummy_candlestick_chart (asc ''AAPL'')))) ! 7"
  using chart_dates_strictly_increasing [of 3 7 "asc ''AAPL''"]
  by (simp add: chart_trace df_def date_range_def length_py_range nth_py_range d_2025_01_01_def)

text \<open>
  Claim C9. Every bar of the synthetic data is consistent: at every index \<open>i\<close> below
  100 the low is \<open>95 + i % 10\<close>, the open \<open>100 + i % 10\<close>, the close \<open>102 + i % 10\<close> and
  the high \<open>105 + i % 10\<close>, so \<open>Low[i] \<le> Open[i] \<le> Close[i] \<le> High[i]\<close>, the low is the
  least and the high the greatest of the four prices of the bar.
\<close>

theorem bars_ohlc_consistent:
  assumes "i < 100"
  shows "Low df ! i = 95 + int i mod 10 \<and> Open df ! i = 100 + int i mod 10 \<and>
         Close df ! i = 102 + int i mod 10 \<and> High df ! i = 105 + int i mod 10 \<and>
         Low df ! i \<le> Open df ! i \<and> Open df ! i \<le> Close df ! i \<and>
         Close df ! i \<le> High df ! i \<and>
         Low df ! i = Min {Open df ! i, High df ! i, Low df ! i, Close df ! i} \<and>
         High df ! i = Max {Open df ! i, High df ! i, Low df ! i, Close df ! i}"
  using assms by (simp add: df_def length_py_range nth_py_range)

theorem bars_ohlc_consistent_witness:
  "(37::nat) < 100 \<and> Low df ! 37 = 102 \<and> Open df ! 37 = 107 \<and> Close df ! 37 = 109 \<and>
   High df ! 37 = 112"
  using bars_ohlc_consistent [of 37] by simp

section \<open>The strategy and its parameters\<close>

lemma strategy_keys:
  "map_of strategy_options name = Some key \<Longrightarrow>
     key = asc ''GoldenCross'' \<or> key = asc ''Breakout'' \<or> key = asc ''MultiFactor''"
  by (auto simp add: strategy_options_def split: if_splits)

lemma selectable_name:
  assumes "selectable w"
  shows "\<exists>name. selected_strategy_name w = Some name \<and> name \<in> set (map fst strategy_options)"
proof (cases "w_strategy w")
  case None
  then show ?thesis
    by (simp add: selected_strategy_name_def selectbox_def strategy_options_def)
next
  case (Some n)
  with assms have "n \<in> set (map fst strategy_options)"
    by (simp add: selectable_def)
  with Some show ?thesis
    by (simp add: selected_strategy_name_def selectbox_def)
qed

lemma map_of_strategy_options:
  "name \<in> set (map fst strategy_options) \<Longrightarrow> \<exists>key. map_of strategy_options name = Some key"
  by (cases "map_of strategy_options name") (auto simp add: map_of_eq_None_iff)

text \<open>
  Claim C5. The strategy is one of exactly three alternatives. The selector offers
  three distinct options, and the dictionary behind it maps the first to
  \<open>GoldenCross\<close>, the second to \<open>Breakout\<close> and the third to \<open>MultiFactor\<close>, three
  distinct keys. The user has selected one of the three options or has left the
  selector untouched, on its first option; line 71 does not raise and binds the key
  of the option selected, so each of the three keys is selected by its own option and
  no other key can be selected. The selectbox of the sidebar shows the three options
  and the one selected.
\<close>

theorem strategy_key_one_of_three:
  assumes "selectable w"
  shows "map fst strategy_options =
           [[0x5747, 0x7DDA, 0x4EA4, 0x53C9, 0x7B56, 0x7565], [0x7A81, 0x7834, 0x7B56, 0x7565],
            [0x591A, 0x56E0, 0x5B50, 0x7D9C, 0x5408, 0x7B56, 0x7565]]
         \<and> map snd strategy_options = [asc ''GoldenCross'', asc ''Breakout'', asc ''MultiFactor'']
         \<and> distinct (map fst strategy_options)
         \<and> distinct (map snd strategy_options)
         \<and> (w_strategy w = None
              \<or> w_strategy w = Some [0x5747, 0x7DDA, 0x4EA4, 0x53C9, 0x7B56, 0x7565]
              \<or> w_strategy w = Some [0x7A81, 0x7834, 0x7B56, 0x7565]
              \<or> w_strategy w = Some [0x591A, 0x56E0, 0x5B50, 0x7D9C, 0x5408, 0x7B56, 0x7565])
         \<and> selected_strategy_name w =
             Some (case w_strategy w of
                     None \<Rightarrow> [0x5747, 0x7DDA, 0x4EA4, 0x53C9, 0x7B56, 0x7565]
                   | Some name \<Rightarrow> name)
         \<and> selected_strategy_key w =
             Inr (case w_strategy w of
                    None \<Rightarrow> asc ''GoldenCross''
                  | Some name \<Rightarrow>
                      if name = [0x5747, 0x7DDA, 0x4EA4, 0x53C9, 0x7B56, 0x7565]
                      then asc ''GoldenCross''
                      else if name = [0x7A81, 0x7834, 0x7B56, 0x7565] then asc ''Breakout''
                      else asc ''MultiFactor'')
         \<and> (selected_strategy_key w = Inr (asc ''GoldenCross'')
              \<or> selected_strategy_key w = Inr (asc ''Breakout'')
              \<or> selected_strategy_key w = Inr (asc ''MultiFactor''))
         \<and> Selectbox [0x9078, 0x64C7, 0x56DE, 0x6E2C, 0x7B56, 0x7565]
               [[0x5747, 0x7DDA, 0x4EA4, 0x53C9, 0x7B56, 0x7565], [0x7A81, 0x7834, 0x7B56, 0x7565],
                [0x591A, 0x56E0, 0x5B50, 0x7D9C, 0x5408, 0x7B56, 0x7565]]
               (selected_strategy_name w)
             \<in> set (sidebar_elements rt w dflt (selected_strategy_name w) key)"
proof -
  have names: "map fst strategy_options =
           [[0x5747, 0x7DDA, 0x4EA4, 0x53C9, 0x7B56, 0x7565], [0x7A81, 0x7834, 0x7B56, 0x7565],
            [0x591A, 0x56E0, 0x5B50, 0x7D9C, 0x5408, 0x7B56, 0x7565]]"
    by (simp add: strategy_options_def)
  have keys:
    "map snd strategy_options = [asc ''GoldenCross'', asc ''Breakout'', asc ''MultiFactor'']"
    by (simp add: strategy_options_def)
  have dist: "distinct (map fst strategy_options)"
    by (simp add: names)
  have dist_keys: "distinct (map snd strategy_options)"
    by (simp add: keys asc_def)
  have sel: "w_strategy w = None
              \<or> w_strategy w = Some [0x5747, 0x7DDA, 0x4EA4, 0x53C9, 0x7B56, 0x7565]
              \<or> w_strategy w = Some [0x7A81, 0x7834, 0x7B56, 0x7565]
              \<or> w_strategy w = Some [0x591A, 0x56E0, 0x5B50, 0x7D9C, 0x5408, 0x7B56, 0x7565]"
    using assms by (cases "w_strategy w") (auto simp add: selectable_def names)
  have name: "selected_strategy_name w =
             Some (case w_strategy w of
                     None \<Rightarrow> [0x5747, 0x7DDA, 0x4EA4, 0x53C9, 0x7B56, 0x7565]
                   | Some name \<Rightarrow> name)"
    by (cases "w_strategy w") (simp_all add: selected_strategy_name_def selectbox_def names)
  have key: "selected_strategy_key w =
             Inr (case w_strategy w of
                    None \<Rightarrow> asc ''GoldenCross''
                  | Some name \<Rightarrow>
                      if name = [0x5747, 0x7DDA, 0x4EA4, 0x53C9, 0x7B56, 0x7565]
                      then asc ''GoldenCross''
                      else if name = [0x7A81, 0x7834, 0x7B56, 0x7565] then asc ''Breakout''
                      else asc ''MultiFactor'')"
    using sel by (auto simp add: selected_strategy_key_def name strategy_options_def)
  have one: "selected_strategy_key w = Inr (asc ''GoldenCross'')
              \<or> selected_strategy_key w = Inr (asc ''Breakout'')
              \<or> selected_strategy_key w = Inr (asc ''MultiFactor'')"
    using sel by (auto simp add: key)
  have box: "Selectbox [0x9078, 0x64C7, 0x56DE, 0x6E2C, 0x7B56, 0x7565]
               [[0x5747, 0x7DDA, 0x4EA4, 0x53C9, 0x7B56, 0x7565], [0x7A81, 0x7834, 0x7B56, 0x7565],
                [0x591A, 0x56E0, 0x5B50, 0x7D9C, 0x5408, 0x7B56, 0x7565]]
               (selected_strategy_name w)
             \<in> set (sidebar_elements rt w dflt (selected_strategy_name w) key)"
    by (simp add: sidebar_elements_def names)
  from names keys dist dist_keys sel name key one box show ?thesis
    by (simp only: simp_thms)
qed

theorem strategy_key_one_of_three_witness:
  "selectable untouched \<and>
   selectable (untouched\<lparr>w_strategy := Some [0x5747, 0x7DDA, 0x4EA4, 0x53C9, 0x7B56, 0x7565]\<rparr>) \<and>
   selectable (untouched\<lparr>w_strategy := Some [0x7A81, 0x7834, 0x7B56, 0x7565]\<rparr>) \<and>
   selectable
     (untouched\<lparr>w_strategy := Some [0x591A, 0x56E0, 0x5B50, 0x7D9C, 0x5408, 0x7B56, 0x7565]\<rparr>) \<and>
   selected_strategy_key untouched = Inr (asc ''GoldenCross'') \<and>
   selected_strategy_key
     (untouched\<lparr>w_strategy := Some [0x5747, 0x7DDA, 0x4EA4, 0x53C9, 0x7B56, 0x7565]\<rparr>)
     = Inr (asc ''GoldenCross'') \<and>
   selected_strategy_key (untouched\<lparr>w_strategy := Some [0x7A81, 0x7834, 0x7B56, 0x7565]\<rparr>)
     = Inr (asc ''Breakout'') \<and>
   selected_strategy_key
     (untouched\<lparr>w_strategy := Some [0x591A, 0x56E0, 0x5B50, 0x7D9C, 0x5408, 0x7B56, 0x7565]\<rparr>)
     = Inr (asc ''MultiFactor'')"
proof -
  have s0: "selectable untouched"
    by (simp add: selectable_def offered_def untouched_def)
  have s: "selectable (untouched\<lparr>w_strategy := Some name\<rparr>)"
    if "name \<in> set (map fst strategy_options)" for name
    using that by (simp add: selectable_def offered_def untouched_def)
  have s1: "selectable
      (untouched\<lparr>w_strategy := Some [0x5747, 0x7DDA, 0x4EA4, 0x53C9, 0x7B56, 0x7565]\<rparr>)"
    by (rule s) (simp add: strategy_options_def)
  have s2: "selectable (untouched\<lparr>w_strategy := Some [0x7A81, 0x7834, 0x7B56, 0x7565]\<rparr>)"
    by (rule s) (simp add: strategy_options_def)
  have s3: "selectable
      (untouched\<lparr>w_strategy := Some [0x591A, 0x56E0, 0x5B50, 0x7D9C, 0x5408, 0x7B56, 0x7565]\<rparr>)"
    by (rule s) (simp add: strategy_options_def)
  from strategy_key_one_of_three [OF s0]
  have k0: "selected_strategy_key untouched = Inr (asc ''GoldenCross'')"
    by (simp add: untouched_def)
  from strategy_key_one_of_three [OF s1]
  have k1: "selected_strategy_key
     (untouched\<lparr>w_strategy := Some [0x5747, 0x7DDA, 0x4EA4, 0x53C9, 0x7B56, 0x7565]\<rparr>)
     = Inr (asc ''GoldenCross'')"
    by simp
  from strategy_key_one_of_three [OF s2]
  have k2: "selected_strategy_key
     (untouched\<lparr>w_strategy := Some [0x7A81, 0x7834, 0x7B56, 0x7565]\<rparr>) = Inr (asc ''Breakout'')"
    by simp
  from strategy_key_one_of_three [OF s3]
  have k3: "selected_strategy_key
     (untouched\<lparr>w_strategy := Some [0x591A, 0x56E0, 0x5B50, 0x7D9C, 0x5408, 0x7B56, 0x7565]\<rparr>)
     = Inr (asc ''MultiFactor'')"
    by simp
  from s0 s1 s2 s3 k0 k1 k2 k3 show ?thesis
    by (simp only: simp_thms)
qed

text \<open>
  Claim C6. Every pair of values that can be set on the two RSI sliders has the buy
  threshold below the sell threshold: the buy threshold lies in 10 to 40, the sell
  threshold in 60 to 90.
\<close>

theorem rsi_thresholds_ordered:
  assumes "selectable w"
  shows "10 \<le> rsi_buy w \<and> rsi_buy w \<le> 40 \<and> 60 \<le> rsi_sell w \<and> rsi_sell w \<le> 90
         \<and> rsi_buy w < rsi_sell w"
proof -
  have b: "10 \<le> rsi_buy w \<and> rsi_buy w \<le> 40"
    using assms
    by (cases "w_rsi_buy w")
       (simp_all add: selectable_def offered_def rsi_buy_def slider_def rsi_buy_slider_def)
  have s: "60 \<le> rsi_sell w \<and> rsi_sell w \<le> 90"
    using assms
    by (cases "w_rsi_sell w")
       (simp_all add: selectable_def offered_def rsi_sell_def slider_def rsi_sell_slider_def)
  from b s show ?thesis by simp
qed

theorem rsi_thresholds_ordered_witness:
  "selectable (untouched\<lparr>w_strategy := Some [0x591A, 0x56E0, 0x5B50, 0x7D9C, 0x5408, 0x7B56, 0x7565],
                         w_rsi_buy := Some 40, w_rsi_sell := Some 60\<rparr>) \<and>
   selected_strategy_key
     (untouched\<lparr>w_strategy := Some [0x591A, 0x56E0, 0x5B50, 0x7D9C, 0x5408, 0x7B56, 0x7565],
                w_rsi_buy := Some 40, w_rsi_sell := Some 60\<rparr>) = Inr (asc ''MultiFactor'') \<and>
   rsi_buy (untouched\<lparr>w_strategy := Some [0x591A, 0x56E0, 0x5B50, 0x7D9C, 0x5408, 0x7B56, 0x7565],
                      w_rsi_buy := Some 40, w_rsi_sell := Some 60\<rparr>) = 40 \<and>
   rsi_sell (untouched\<lparr>w_strategy := Some [0x591A, 0x56E0, 0x5B50, 0x7D9C, 0x5408, 0x7B56, 0x7565],
                       w_rsi_buy := Some 40, w_rsi_sell := Some 60\<rparr>) = 60"
  using rsi_thresholds_ordered
    [of "untouched\<lparr>w_strategy := Some [0x591A, 0x56E0, 0x5B50, 0x7D9C, 0x5408, 0x7B56, 0x7565],
                   w_rsi_buy := Some 40, w_rsi_sell := Some 60\<rparr>"]
  by (simp add: selectable_def untouched_def offered_def strategy_options_def
      selected_strategy_key_def selected_strategy_name_def selectbox_def
      rsi_buy_def rsi_sell_def slider_def rsi_buy_slider_def rsi_sell_slider_def
      fast_ma_slider_def slow_ma_slider_def period_slider_def)

section \<open>The metrics shown in the backtest tab\<close>

text \<open>
  Claim C7. The maximum drawdown that the backtest tab reports is a negative fraction
  between -1 and 0: the frame of the tab has the entry \<open>-15.2%\<close> in the row of the
  maximum drawdown, whatever strategy is selected, and that entry denotes -0.152.
\<close>

theorem max_drawdown_entry_in_range:
  "DataFrame metrics \<in> set (tab5 name) \<and>
   metric_value [0x6700, 0x5927, 0x56DE, 0x64A4] = Some (asc ''-15.2%'') \<and>
   percent_value (asc ''-15.2%'') = Some (- 152 / 1000) \<and>
   (- 1 :: rat) \<le> - 152 / 1000 \<and> (- 152 / 1000 :: rat) < 0"
  by (simp add: tab5_def metric_value_def metrics_def percent_value_def decimal_def
      unsigned_decimal_def is_digit_def nat_of_digits_def asc_def Let_def)

section \<open>Runs of the script\<close>

lemma untouched_fields:
  "w_ticker untouched = None" "w_start untouched = None" "w_end untouched = None"
  "w_strategy untouched = None" "w_fast_ma untouched = None" "w_slow_ma untouched = None"
  "w_period untouched = None" "w_rsi_buy untouched = None" "w_rsi_sell untouched = None"
  "w_run untouched = False"
  by (simp_all add: untouched_def)

lemma runtime_on_fields:
  "today (runtime_on d) = d" "upper (runtime_on d) = upper_ascii"
  by (simp_all add: runtime_on_def)

text \<open>A run that returns a page has passed lines 48 and 71.\<close>

lemma app_Inr:
  assumes "app rt w = Inr pg"
  obtains dflt key where
    "default_start_date rt = Inr dflt" and "selected_strategy_key w = Inr key" and
    "pg = \<lparr> config = set_page_config,
            sidebar = sidebar_elements rt w dflt (selected_strategy_name w) key,
            main_area = main_elements rt w (start_date dflt w) (selected_strategy_name w) \<rparr>"
  using assms by (auto simp add: app_def split: sum.splits)

text \<open>A run with the selectbox untouched, on a day from which ten years can be taken.\<close>

lemma untouched_run:
  "3650 < d \<Longrightarrow> d \<le> 3652059 \<Longrightarrow> w_strategy w = None \<Longrightarrow>
   app (runtime_on d) w =
     Inr \<lparr> config = set_page_config,
           sidebar = sidebar_elements (runtime_on d) w (d - 3650)
                       (Some [0x5747, 0x7DDA, 0x4EA4, 0x53C9, 0x7B56, 0x7565]) (asc ''GoldenCross''),
           main_area = main_elements (runtime_on d) w (start_date (d - 3650) w)
                         (Some [0x5747, 0x7DDA, 0x4EA4, 0x53C9, 0x7B56, 0x7565]) \<rparr>"
  by (simp add: app_def default_start_date_def date_sub_days_def runtime_on_def
      selected_strategy_key_def selected_strategy_name_def selectbox_def
      strategy_options_def)

lemma first_run:
  "3650 < d \<Longrightarrow> d \<le> 3652059 \<Longrightarrow>
   app (runtime_on d) untouched =
     Inr \<lparr> config = set_page_config,
           sidebar = sidebar_elements (runtime_on d) untouched (d - 3650)
                       (Some [0x5747, 0x7DDA, 0x4EA4, 0x53C9, 0x7B56, 0x7565]) (asc ''GoldenCross''),
           main_area = main_elements (runtime_on d) untouched (d - 3650)
                         (Some [0x5747, 0x7DDA, 0x4EA4, 0x53C9, 0x7B56, 0x7565]) \<rparr>"
  using untouched_run [of d untouched]
  by (simp add: untouched_fields start_date_def date_input_def)

text \<open>
  A run returns a page for every input a user can give, on every day from which ten
  years can be taken.
\<close>

lemma app_returns:
  assumes "selectable w" and "3650 < today rt" and "today rt \<le> 3652059"
  obtains key where "selected_strategy_key w = Inr key" and
    "app rt w =
       Inr \<lparr> config = set_page_config,
             sidebar = sidebar_elements rt w (today rt - 3650) (selected_strategy_name w) key,
             main_area = main_elements rt w (start_date (today rt - 3650) w)
                           (selected_strategy_name w) \<rparr>"
proof -
  from selectable_name [OF assms(1)] obtain name where
    n: "selected_strategy_name w = Some name" "name \<in> set (map fst strategy_options)"
    by blast
  from map_of_strategy_options [OF n(2)] obtain key where
    k: "map_of strategy_options name = Some key" by blast
  have key: "selected_strategy_key w = Inr key"
    using n(1) k by (simp add: selected_strategy_key_def)
  have "default_start_date rt = Inr (today rt - 3650)"
    using assms(2,3) by (simp add: default_start_date_def date_sub_days_def)
  then have "app rt w =
       Inr \<lparr> config = set_page_config,
             sidebar = sidebar_elements rt w (today rt - 3650) (selected_strategy_name w) key,
             main_area = main_elements rt w (start_date (today rt - 3650) w)
                           (selected_strategy_name w) \<rparr>"
    by (simp add: app_def key)
  with key show ?thesis by (rule that)
qed

lemma content_tabs_main_elements:
  "concat (map tabs_in (main_elements rt w start name)) =
     zip tab_labels [tab1 (ticker rt w), tab2, tab3, tab4, tab5 name]"
  by (simp add: main_elements_def)

lemma selected_key_cases:
  assumes "selected_strategy_key w = Inr key"
  shows "key = asc ''GoldenCross'' \<or> key = asc ''Breakout'' \<or> key = asc ''MultiFactor''"
proof -
  from assms obtain name where "map_of strategy_options name = Some key"
    by (auto simp add: selected_strategy_key_def split: option.splits)
  then show ?thesis by (rule strategy_keys)
qed

lemma parameter_controls_slider:
  assumes "key = asc ''GoldenCross'' \<or> key = asc ''Breakout'' \<or> key = asc ''MultiFactor''"
  shows "\<exists>args v. Slider args v \<in> set (parameter_controls key w)"
  using assms by (auto simp add: parameter_controls_def)

section \<open>The button of the backtest\<close>

lemma run_independent:
  "start_date dflt (w\<lparr>w_run := b\<rparr>) = start_date dflt w"
  "selected_strategy_key (w\<lparr>w_run := b\<rparr>) = selected_strategy_key w"
  "selected_strategy_name (w\<lparr>w_run := b\<rparr>) = selected_strategy_name w"
  "main_elements rt (w\<lparr>w_run := b\<rparr>) start name = main_elements rt w start name"
  "parameter_controls key (w\<lparr>w_run := b\<rparr>) = parameter_controls key w"
  by (simp_all add: start_date_def selected_strategy_key_def selected_strategy_name_def
      main_elements_def ticker_def end_date_def parameter_controls_def
      fast_ma_def slow_ma_def period_def rsi_buy_def rsi_sell_def split: sum.splits)

lemma sidebar_run:
  "sidebar_elements rt (w\<lparr>w_run := True\<rparr>) dflt name key =
     sidebar_elements rt (w\<lparr>w_run := False\<rparr>) dflt name key
       @ [Success ([0x56DE, 0x6E2C, 0x8ACB, 0x6C42, 0x5DF2, 0x9001, 0x51FA] @ asc ''...'')]"
  by (simp add: sidebar_elements_def run_independent run_backtest_button_def end_date_def)

text \<open>
  Claim C3. A click on the button of the backtest ingests no data, computes no
  indicator and simulates nothing: the run it starts returns what the same run without
  the click returns (the same exception, or the same page configuration and the same
  main area with all its tabs), but for one status message added at the end of the
  sidebar.
\<close>

theorem run_button_only_adds_status_message:
  "app rt (w\<lparr>w_run := True\<rparr>) =
     map_sum id
       (\<lambda>pg. pg\<lparr>sidebar := sidebar pg
                 @ [Success ([0x56DE, 0x6E2C, 0x8ACB, 0x6C42, 0x5DF2, 0x9001, 0x51FA] @ asc ''...'')]\<rparr>)
       (app rt (w\<lparr>w_run := False\<rparr>))"
  by (simp add: app_def run_independent sidebar_run split: sum.splits)

section \<open>The ticker\<close>

text \<open>
  Claim C10. The ticker is put in upper case where it is read: for every string typed
  into the text input, the run returns a page, and the ticker of the page title, of the
  first tab and of the chart title is the upper case of that string; no other tab shows
  the ticker.
\<close>

theorem ticker_uppercased_everywhere:
  assumes "w_ticker w = Some s" and "selectable w"
    and "3650 < today rt" and "today rt \<le> 3652059"
  shows "ticker rt w = upper rt s \<and>
         (\<exists>pg. app rt w = Inr pg \<and>
            hd (main_area pg) =
              Title ([0x7F8E, 0x80A1, 0x7D9C, 0x5408, 0x5206, 0x6790, 0x7CFB, 0x7D71] @ asc '' - ''
                       @ upper rt s) \<and>
            content_tabs pg =
              zip tab_labels
                [tab1 (upper rt s), tab2, tab3, tab4, tab5 (selected_strategy_name w)]) \<and>
         tab1 (upper rt s) ! 1 =
           Info ([0x6B63, 0x5728, 0x986F, 0x793A] @ asc '' '' @ upper rt s @ asc '' ''
                   @ [0x7684, 0x516C, 0x53F8, 0x57FA, 0x672C, 0x8CC7, 0x8A0A, 0x8207, 0x80A1,
                      0x50F9, 0x6458, 0x8981] @ asc ''...'') \<and>
         tab1 (upper rt s) ! 3 = PlotlyChart (get_dummy_candlestick_chart (upper rt s)) \<and>
         fig_title (get_dummy_candlestick_chart (upper rt s)) =
           upper rt s @ asc '' '' @ [0x80A1, 0x50F9, 0x8D70, 0x52E2] @ asc '' (''
             @ [0x6A21, 0x64EC, 0x6578, 0x64DA] @ asc '')''"
proof -
  have t: "ticker rt w = upper rt s"
    using assms(1) by (simp add: ticker_def text_input_def)
  from assms(2,3,4) obtain key where
    run: "app rt w =
       Inr \<lparr> config = set_page_config,
             sidebar = sidebar_elements rt w (today rt - 3650) (selected_strategy_name w) key,
             main_area = main_elements rt w (start_date (today rt - 3650) w)
                           (selected_strategy_name w) \<rparr>"
    by (rule app_returns)
  have h: "hd (main_elements rt w (start_date (today rt - 3650) w)
                 (selected_strategy_name w)) =
           Title ([0x7F8E, 0x80A1, 0x7D9C, 0x5408, 0x5206, 0x6790, 0x7CFB, 0x7D71] @ asc '' - ''
                    @ upper rt s)"
    by (simp add: main_elements_def t)
  have c: "concat (map tabs_in (main_elements rt w (start_date (today rt - 3650) w)
                 (selected_strategy_name w))) =
           zip tab_labels [tab1 (upper rt s), tab2, tab3, tab4, tab5 (selected_strategy_name w)]"
    by (simp add: content_tabs_main_elements t)
  have "\<exists>pg. app rt w = Inr pg \<and>
            hd (main_area pg) =
              Title ([0x7F8E, 0x80A1, 0x7D9C, 0x5408, 0x5206, 0x6790, 0x7CFB, 0x7D71] @ asc '' - ''
                       @ upper rt s) \<and>
            content_tabs pg =
              zip tab_labels
                [tab1 (upper rt s), tab2, tab3, tab4, tab5 (selected_strategy_name w)]"
    using h c by (simp add: run content_tabs_def)
  then show ?thesis
    using t by (simp add: tab1_def get_dummy_candlestick_chart_def)
qed

theorem ticker_uppercased_everywhere_witness:
  "w_ticker (untouched\<lparr>w_ticker := Some (asc ''msft'')\<rparr>) = Some (asc ''msft'') \<and>
   selectable (untouched\<lparr>w_ticker := Some (asc ''msft'')\<rparr>) \<and>
   3650 < today (runtime_on 739923) \<and> today (runtime_on 739923) \<le> 3652059 \<and>
   map_sum id (hd \<circ> main_area)
     (app (runtime_on 739923) (untouched\<lparr>w_ticker := Some (asc ''msft'')\<rparr>))
     = Inr (Title ([0x7F8E, 0x80A1, 0x7D9C, 0x5408, 0x5206, 0x6790, 0x7CFB, 0x7D71] @ asc '' - ''
                    @ asc ''MSFT''))"
proof -
  have tk: "w_ticker (untouched\<lparr>w_ticker := Some (asc ''msft'')\<rparr>) = Some (asc ''msft'')"
    by simp
  have sel: "selectable (untouched\<lparr>w_ticker := Some (asc ''msft'')\<rparr>)"
    by (simp add: selectable_def offered_def untouched_fields)
  have day: "3650 < today (runtime_on 739923)" "today (runtime_on 739923) \<le> 3652059"
    by (simp_all add: runtime_on_fields)
  have up: "upper (runtime_on 739923) (asc ''msft'') = asc ''MSFT''"
    by (simp add: runtime_on_def upper_ascii_def asc_def)
  from ticker_uppercased_everywhere [OF tk sel day]
  obtain pg where
    "app (runtime_on 739923) (untouched\<lparr>w_ticker := Some (asc ''msft'')\<rparr>) = Inr pg"
    "hd (main_area pg) =
       Title ([0x7F8E, 0x80A1, 0x7D9C, 0x5408, 0x5206, 0x6790, 0x7CFB, 0x7D71] @ asc '' - ''
                @ upper (runtime_on 739923) (asc ''msft''))"
    by blast
  then show ?thesis
    using tk sel day by (simp add: up)
qed

section \<open>The page\<close>

lemma df_columns:
  "Date df = map (\<lambda>i. 739252 + int i) [0..<100]"
  "Open df = map (\<lambda>i. 100 + int i mod 10) [0..<100]"
  "High df = map (\<lambda>i. 105 + int i mod 10) [0..<100]"
  "Low df = map (\<lambda>i. 95 + int i mod 10) [0..<100]"
  "Close df = map (\<lambda>i. 102 + int i mod 10) [0..<100]"
  by (simp_all add: df_def date_range_def py_range_def d_2025_01_01_def o_def)

lemma date_offered_sample: "date_offered 736273 739000"
  by code_simp

text \<open>
  Claim C8. For every input a user can give, the program returns a page. Its sidebar
  has the controls: the ticker input with the text typed, the two date inputs with
  the days they take from the clock and the dates they return, the strategy selector
  with its three options and the one selected, and the parameter sliders of the
  selected strategy. Its main area has exactly five content tabs: overview,
  fundamentals, technicals, sentiment and backtest. What the tabs hold is written out
  below: fixed headings and notices, with the ticker in the notice of the first tab and
  the name of the selected strategy in the notice of the last; in the first tab the
  chart of the synthetic data, 100 days from 2025-01-01 with prices that repeat every
  ten days; in the last tab the fixed frame of the three metrics.
\<close>

theorem page_is_controls_and_placeholder_tabs:
  assumes "selectable w" and "3650 < today rt" and "today rt \<le> 3652059"
  shows "\<exists>pg name key. app rt w = Inr pg \<and> selected_strategy_name w = Some name \<and>
           selected_strategy_key w = Inr key \<and>
           TextInput [0x8ACB, 0x8F38, 0x5165, 0x7F8E, 0x80A1, 0x4EE3, 0x78BC]
             (case w_ticker w of None \<Rightarrow> asc ''AAPL'' | Some v \<Rightarrow> v) \<in> set (sidebar pg) \<and>
           DateInput [0x8D77, 0x59CB, 0x65E5, 0x671F] (today rt - 3650)
             (start_date (today rt - 3650) w) \<in> set (sidebar pg) \<and>
           DateInput [0x7D50, 0x675F, 0x65E5, 0x671F] (today rt) (end_date rt w)
             \<in> set (sidebar pg) \<and>
           Selectbox [0x9078, 0x64C7, 0x56DE, 0x6E2C, 0x7B56, 0x7565]
             [[0x5747, 0x7DDA, 0x4EA4, 0x53C9, 0x7B56, 0x7565], [0x7A81, 0x7834, 0x7B56, 0x7565],
              [0x591A, 0x56E0, 0x5B50, 0x7D9C, 0x5408, 0x7B56, 0x7565]]
             (Some name) \<in> set (sidebar pg) \<and>
           (key = asc ''GoldenCross'' \<and>
              Slider \<lparr> sl_label = [0x77ED, 0x671F, 0x5747, 0x7DDA] @ asc '' (Fast MA)'',
                       sl_min = 5, sl_max = 60, sl_value = 20 \<rparr> (fast_ma w) \<in> set (sidebar pg) \<and>
              Slider \<lparr> sl_label = [0x9577, 0x671F, 0x5747, 0x7DDA] @ asc '' (Slow MA)'',
                       sl_min = 50, sl_max = 300, sl_value = 60 \<rparr> (slow_ma w) \<in> set (sidebar pg)
            \<or> key = asc ''Breakout'' \<and>
              Slider \<lparr> sl_label = [0x7A81, 0x7834, 0x9031, 0x671F] @ asc '' (Period)'',
                       sl_min = 5, sl_max = 100, sl_value = 20 \<rparr> (period w) \<in> set (sidebar pg)
            \<or> key = asc ''MultiFactor'' \<and>
              Slider \<lparr> sl_label = asc ''RSI '' @ [0x8CB7, 0x5165, 0x95BE, 0x503C],
                       sl_min = 10, sl_max = 40, sl_value = 30 \<rparr> (rsi_buy w) \<in> set (sidebar pg) \<and>
              Slider \<lparr> sl_label = asc ''RSI '' @ [0x8CE3, 0x51FA, 0x95BE, 0x503C],
                       sl_min = 60, sl_max = 90, sl_value = 70 \<rparr> (rsi_sell w) \<in> set (sidebar pg)) \<and>
           (\<exists>args v. Slider args v \<in> set (sidebar pg)) \<and>
           length (content_tabs pg) = 5 \<and>
           content_tabs pg =
             [([0x7E3D, 0x89BD] @ asc '' (Overview)'',
               [Header [0x7E3D, 0x89BD],
                Info ([0x6B63, 0x5728, 0x986F, 0x793A] @ asc '' '' @ ticker rt w @ asc '' ''
                        @ [0x7684, 0x516C, 0x53F8, 0x57FA, 0x672C, 0x8CC7, 0x8A0A, 0x8207, 0x80A1,
                           0x50F9, 0x6458, 0x8981] @ asc ''...''),
                Subheader [0x80A1, 0x50F9, 0x8D70, 0x52E2],
                PlotlyChart
                  \<lparr> fig_data =
                      [\<lparr> cs_x = map (\<lambda>i. 739252 + int i) [0..<100],
                         cs_open = map (\<lambda>i. 100 + int i mod 10) [0..<100],
                         cs_high = map (\<lambda>i. 105 + int i mod 10) [0..<100],
                         cs_low = map (\<lambda>i. 95 + int i mod 10) [0..<100],
                         cs_close = map (\<lambda>i. 102 + int i mod 10) [0..<100],
                         cs_name = asc ''Candlestick'' \<rparr>],
                    fig_title = ticker rt w @ asc '' '' @ [0x80A1, 0x50F9, 0x8D70, 0x52E2]
                                  @ asc '' ('' @ [0x6A21, 0x64EC, 0x6578, 0x64DA] @ asc '')'',
                    fig_xaxis_rangeslider_visible = False,
                    fig_height = 500 \<rparr>]),
              ([0x57FA, 0x672C, 0x9762] @ asc '' (Fundamental)'',
               [Header [0x57FA, 0x672C, 0x9762, 0x5206, 0x6790],
                Warning [0x6B64, 0x8655, 0x5C07, 0x986F, 0x793A, 0x8CA1, 0x52D9, 0x5831, 0x8868,
                         0x8DA8, 0x52E2, 0x5716, 0x8207, 0x8CA1, 0x52D9, 0x6BD4, 0x7387, 0x8868,
                         0x683C, 0x3002]]),
              ([0x6280, 0x8853, 0x9762] @ asc '' (Technical)'',
               [Header [0x6280, 0x8853, 0x9762, 0x5206, 0x6790],
                Warning ([0x6B64, 0x8655, 0x5C07, 0x986F, 0x793A, 0x53EF, 0x758A, 0x52A0, 0x6280,
                          0x8853, 0x6307, 0x6A19, 0x7684, 0x4E92, 0x52D5, 0x5F0F] @ asc '' K ''
                           @ [0x7DDA, 0x5716, 0x3002])]),
              ([0x5FC3, 0x7406, 0x9762] @ asc '' (Sentiment)'',
               [Header [0x5FC3, 0x7406, 0x9762, 0x5206, 0x6790],
                Warning ([0x6B64, 0x8655, 0x5C07, 0x986F, 0x793A] @ asc '' VIX ''
                           @ [0x6050, 0x614C, 0x6307, 0x6578, 0x5716, 0x8207, 0x65B0, 0x805E,
                              0x60C5, 0x7DD2, 0x5206, 0x6790, 0x7D50, 0x679C, 0x3002])]),
              ([0x7B56, 0x7565, 0x56DE, 0x6E2C] @ asc '' (Backtest)'',
               [Header [0x7B56, 0x7565, 0x56DE, 0x6E2C, 0x7D50, 0x679C],
                Warning ([0x7576, 0x524D, 0x9078, 0x64C7, 0x7B56, 0x7565] @ asc '': **'' @ name
                           @ asc ''**'' @ [0x3002, 0x56DE, 0x6E2C, 0x7D50, 0x679C, 0x5C07, 0x5728,
                                           0x6B64, 0x8655, 0x5448, 0x73FE, 0x3002]),
                Subheader ([0x7E3E, 0x6548, 0x6307, 0x6A19] @ asc '' (Performance Metrics)''),
                DataFrame
                  [([0x6307, 0x6A19],
                    [[0x5E74, 0x5316, 0x5831, 0x916C, 0x7387], [0x6700, 0x5927, 0x56DE, 0x64A4],
                     [0x590F, 0x666E, 0x6BD4, 0x7387]]),
                   ([0x6578, 0x503C], [asc ''25.5%'', asc ''-15.2%'', asc ''1.5''])],
                Subheader ([0x6B0A, 0x76CA, 0x66F2, 0x7DDA, 0x5716] @ asc '' (Equity Curve)'')])]"
proof -
  define start where "start = today rt - 3650"
  from assms obtain key where
    key: "selected_strategy_key w = Inr key" and
    run: "app rt w =
       Inr \<lparr> config = set_page_config,
             sidebar = sidebar_elements rt w start (selected_strategy_name w) key,
             main_area = main_elements rt w (start_date start w)
                           (selected_strategy_name w) \<rparr>"
    unfolding start_def by (rule app_returns)
  from selectable_name [OF assms(1)] obtain name where
    name: "selected_strategy_name w = Some name"
    by blast
  define pg where
    "pg = \<lparr> config = set_page_config,
            sidebar = sidebar_elements rt w start (selected_strategy_name w) key,
            main_area = main_elements rt w (start_date start w) (selected_strategy_name w) \<rparr>"
  have sb: "sidebar pg = sidebar_elements rt w start (Some name) key"
    by (simp add: pg_def name)
  have controls:
    "TextInput [0x8ACB, 0x8F38, 0x5165, 0x7F8E, 0x80A1, 0x4EE3, 0x78BC]
       (case w_ticker w of None \<Rightarrow> asc ''AAPL'' | Some v \<Rightarrow> v) \<in> set (sidebar pg)"
    "DateInput [0x8D77, 0x59CB, 0x65E5, 0x671F] (today rt - 3650)
       (start_date (today rt - 3650) w) \<in> set (sidebar pg)"
    "DateInput [0x7D50, 0x675F, 0x65E5, 0x671F] (today rt) (end_date rt w) \<in> set (sidebar pg)"
    "Selectbox [0x9078, 0x64C7, 0x56DE, 0x6E2C, 0x7B56, 0x7565]
       [[0x5747, 0x7DDA, 0x4EA4, 0x53C9, 0x7B56, 0x7565], [0x7A81, 0x7834, 0x7B56, 0x7565],
        [0x591A, 0x56E0, 0x5B50, 0x7D9C, 0x5408, 0x7B56, 0x7565]]
       (Some name) \<in> set (sidebar pg)"
    by (simp_all add: sb sidebar_elements_def text_input_def start_def strategy_options_def)
  have sliders:
    "key = asc ''GoldenCross'' \<and>
        Slider \<lparr> sl_label = [0x77ED, 0x671F, 0x5747, 0x7DDA] @ asc '' (Fast MA)'',
                 sl_min = 5, sl_max = 60, sl_value = 20 \<rparr> (fast_ma w) \<in> set (sidebar pg) \<and>
        Slider \<lparr> sl_label = [0x9577, 0x671F, 0x5747, 0x7DDA] @ asc '' (Slow MA)'',
                 sl_min = 50, sl_max = 300, sl_value = 60 \<rparr> (slow_ma w) \<in> set (sidebar pg)
      \<or> key = asc ''Breakout'' \<and>
        Slider \<lparr> sl_label = [0x7A81, 0x7834, 0x9031, 0x671F] @ asc '' (Period)'',
                 sl_min = 5, sl_max = 100, sl_value = 20 \<rparr> (period w) \<in> set (sidebar pg)
      \<or> key = asc ''MultiFactor'' \<and>
        Slider \<lparr> sl_label = asc ''RSI '' @ [0x8CB7, 0x5165, 0x95BE, 0x503C],
                 sl_min = 10, sl_max = 40, sl_value = 30 \<rparr> (rsi_buy w) \<in> set (sidebar pg) \<and>
        Slider \<lparr> sl_label = asc ''RSI '' @ [0x8CE3, 0x51FA, 0x95BE, 0x503C],
                 sl_min = 60, sl_max = 90, sl_value = 70 \<rparr> (rsi_sell w) \<in> set (sidebar pg)"
    using selected_key_cases [OF key]
    by (auto simp add: sb sidebar_elements_def parameter_controls_def fast_ma_slider_def
        slow_ma_slider_def period_slider_def rsi_buy_slider_def rsi_sell_slider_def)
  from parameter_controls_slider [OF selected_key_cases [OF key], of w]
  obtain args v where "Slider args v \<in> set (parameter_controls key w)"
    by blast
  then have "Slider args v \<in> set (sidebar pg)"
    by (simp add: sb sidebar_elements_def)
  then have some_slider: "\<exists>args v. Slider args v \<in> set (sidebar pg)"
    by blast
  have tabs: "content_tabs pg =
      zip tab_labels [tab1 (ticker rt w), tab2, tab3, tab4, tab5 (Some name)]"
    by (simp add: pg_def content_tabs_def content_tabs_main_elements name)
  have len: "length (content_tabs pg) = 5"
    by (simp add: tabs tab_labels_def)
  have content: "content_tabs pg =
             [([0x7E3D, 0x89BD] @ asc '' (Overview)'',
               [Header [0x7E3D, 0x89BD],
                Info ([0x6B63, 0x5728, 0x986F, 0x793A] @ asc '' '' @ ticker rt w @ asc '' ''
                        @ [0x7684, 0x516C, 0x53F8, 0x57FA, 0x672C, 0x8CC7, 0x8A0A, 0x8207, 0x80A1,
                           0x50F9, 0x6458, 0x8981] @ asc ''...''),
                Subheader [0x80A1, 0x50F9, 0x8D70, 0x52E2],
                PlotlyChart
                  \<lparr> fig_data =
                      [\<lparr> cs_x = map (\<lambda>i. 739252 + int i) [0..<100],
                         cs_open = map (\<lambda>i. 100 + int i mod 10) [0..<100],
                         cs_high = map (\<lambda>i. 105 + int i mod 10) [0..<100],
                         cs_low = map (\<lambda>i. 95 + int i mod 10) [0..<100],
                         cs_close = map (\<lambda>i. 102 + int i mod 10) [0..<100],
                         cs_name = asc ''Candlestick'' \<rparr>],
                    fig_title = ticker rt w @ asc '' '' @ [0x80A1, 0x50F9, 0x8D70, 0x52E2]
                                  @ asc '' ('' @ [0x6A21, 0x64EC, 0x6578, 0x64DA] @ asc '')'',
                    fig_xaxis_rangeslider_visible = False,
                    fig_height = 500 \<rparr>]),
              ([0x57FA, 0x672C, 0x9762] @ asc '' (Fundamental)'',
               [Header [0x57FA, 0x672C, 0x9762, 0x5206, 0x6790],
                Warning [0x6B64, 0x8655, 0x5C07, 0x986F, 0x793A, 0x8CA1, 0x52D9, 0x5831, 0x8868,
                         0x8DA8, 0x52E2, 0x5716, 0x8207, 0x8CA1, 0x52D9, 0x6BD4, 0x7387, 0x8868,
                         0x683C, 0x3002]]),
              ([0x6280, 0x8853, 0x9762] @ asc '' (Technical)'',
               [Header [0x6280, 0x8853, 0x9762, 0x5206, 0x6790],
                Warning ([0x6B64, 0x8655, 0x5C07, 0x986F, 0x793A, 0x53EF, 0x758A, 0x52A0, 0x6280,
                          0x8853, 0x6307, 0x6A19, 0x7684, 0x4E92, 0x52D5, 0x5F0F] @ asc '' K ''
                           @ [0x7DDA, 0x5716, 0x3002])]),
              ([0x5FC3, 0x7406, 0x9762] @ asc '' (Sentiment)'',
               [Header [0x5FC3, 0x7406, 0x9762, 0x5206, 0x6790],
                Warning ([0x6B64, 0x8655, 0x5C07, 0x986F, 0x793A] @ asc '' VIX ''
                           @ [0x6050, 0x614C, 0x6307, 0x6578, 0x5716, 0x8207, 0x65B0, 0x805E,
                              0x60C5, 0x7DD2, 0x5206, 0x6790, 0x7D50, 0x679C, 0x3002])]),
              ([0x7B56, 0x7565, 0x56DE, 0x6E2C] @ asc '' (Backtest)'',
               [Header [0x7B56, 0x7565, 0x56DE, 0x6E2C, 0x7D50, 0x679C],
                Warning ([0x7576, 0x524D, 0x9078, 0x64C7, 0x7B56, 0x7565] @ asc '': **'' @ name
                           @ asc ''**'' @ [0x3002, 0x56DE, 0x6E2C, 0x7D50, 0x679C, 0x5C07, 0x5728,
                                           0x6B64, 0x8655, 0x5448, 0x73FE, 0x3002]),
                Subheader ([0x7E3E, 0x6548, 0x6307, 0x6A19] @ asc '' (Performance Metrics)''),
                DataFrame
                  [([0x6307, 0x6A19],
                    [[0x5E74, 0x5316, 0x5831, 0x916C, 0x7387], [0x6700, 0x5927, 0x56DE, 0x64A4],
                     [0x590F, 0x666E, 0x6BD4, 0x7387]]),
                   ([0x6578, 0x503C], [asc ''25.5%'', asc ''-15.2%'', asc ''1.5''])],
                Subheader ([0x6B0A, 0x76CA, 0x66F2, 0x7DDA, 0x5716] @ asc '' (Equity Curve)'')])]"
    by (simp add: tabs tab_labels_def tab1_def tab2_def tab3_def tab4_def tab5_def metrics_def
        get_dummy_candlestick_chart_def df_columns)
  have r: "app rt w = Inr pg"
    by (simp add: run pg_def)
  have "app rt w = Inr pg \<and> selected_strategy_name w = Some name \<and>
           selected_strategy_key w = Inr key \<and>
           TextInput [0x8ACB, 0x8F38, 0x5165, 0x7F8E, 0x80A1, 0x4EE3, 0x78BC]
             (case w_ticker w of None \<Rightarrow> asc ''AAPL'' | Some v \<Rightarrow> v) \<in> set (sidebar pg) \<and>
           DateInput [0x8D77, 0x59CB, 0x65E5, 0x671F] (today rt - 3650)
             (start_date (today rt - 3650) w) \<in> set (sidebar pg) \<and>
           DateInput [0x7D50, 0x675F, 0x65E5, 0x671F] (today rt) (end_date rt w)
             \<in> set (sidebar pg) \<and>
           Selectbox [0x9078, 0x64C7, 0x56DE, 0x6E2C, 0x7B56, 0x7565]
             [[0x5747, 0x7DDA, 0x4EA4, 0x53C9, 0x7B56, 0x7565], [0x7A81, 0x7834, 0x7B56, 0x7565],
              [0x591A, 0x56E0, 0x5B50, 0x7D9C, 0x5408, 0x7B56, 0x7565]]
             (Some name) \<in> set (sidebar pg) \<and>
           (key = asc ''GoldenCross'' \<and>
              Slider \<lparr> sl_label = [0x77ED, 0x671F, 0x5747, 0x7DDA] @ asc '' (Fast MA)'',
                       sl_min = 5, sl_max = 60, sl_value = 20 \<rparr> (fast_ma w) \<in> set (sidebar pg) \<and>
              Slider \<lparr> sl_label = [0x9577, 0x671F, 0x5747, 0x7DDA] @ asc '' (Slow MA)'',
                       sl_min = 50, sl_max = 300, sl_value = 60 \<rparr> (slow_ma w) \<in> set (sidebar pg)
            \<or> key = asc ''Breakout'' \<and>
              Slider \<lparr> sl_label = [0x7A81, 0x7834, 0x9031, 0x671F] @ asc '' (Period)'',
                       sl_min = 5, sl_max = 100, sl_value = 20 \<rparr> (period w) \<in> set (sidebar pg)
            \<or> key = asc ''MultiFactor'' \<and>
              Slider \<lparr> sl_label = asc ''RSI '' @ [0x8CB7, 0x5165, 0x95BE, 0x503C],
                       sl_min = 10, sl_max = 40, sl_value = 30 \<rparr> (rsi_buy w) \<in> set (sidebar pg) \<and>
              Slider \<lparr> sl_label = asc ''RSI '' @ [0x8CE3, 0x51FA, 0x95BE, 0x503C],
                       sl_min = 60, sl_max = 90, sl_value = 70 \<rparr> (rsi_sell w) \<in> set (sidebar pg)) \<and>
           (\<exists>args v. Slider args v \<in> set (sidebar pg)) \<and>
           length (content_tabs pg) = 5 \<and>
           content_tabs pg =
             [([0x7E3D, 0x89BD] @ asc '' (Overview)'',
               [Header [0x7E3D, 0x89BD],
                Info ([0x6B63, 0x5728, 0x986F, 0x793A] @ asc '' '' @ ticker rt w @ asc '' ''
                        @ [0x7684, 0x516C, 0x53F8, 0x57FA, 0x672C, 0x8CC7, 0x8A0A, 0x8207, 0x80A1,
                           0x50F9, 0x6458, 0x8981] @ asc ''...''),
                Subheader [0x80A1, 0x50F9, 0x8D70, 0x52E2],
                PlotlyChart
                  \<lparr> fig_data =
                      [\<lparr> cs_x = map (\<lambda>i. 739252 + int i) [0..<100],
                         cs_open = map (\<lambda>i. 100 + int i mod 10) [0..<100],
                         cs_high = map (\<lambda>i. 105 + int i mod 10) [0..<100],
                         cs_low = map (\<lambda>i. 95 + int i mod 10) [0..<100],
                         cs_close = map (\<lambda>i. 102 + int i mod 10) [0..<100],
                         cs_name = asc ''Candlestick'' \<rparr>],
                    fig_title = ticker rt w @ asc '' '' @ [0x80A1, 0x50F9, 0x8D70, 0x52E2]
                                  @ asc '' ('' @ [0x6A21, 0x64EC, 0x6578, 0x64DA] @ asc '')'',
                    fig_xaxis_rangeslider_visible = False,
                    fig_height = 500 \<rparr>]),
              ([0x57FA, 0x672C, 0x9762] @ asc '' (Fundamental)'',
               [Header [0x57FA, 0x672C, 0x9762, 0x5206, 0x6790],
                Warning [0x6B64, 0x8655, 0x5C07, 0x986F, 0x793A, 0x8CA1, 0x52D9, 0x5831, 0x8868,
                         0x8DA8, 0x52E2, 0x5716, 0x8207, 0x8CA1, 0x52D9, 0x6BD4, 0x7387, 0x8868,
                         0x683C, 0x3002]]),
              ([0x6280, 0x8853, 0x9762] @ asc '' (Technical)'',
               [Header [0x6280, 0x8853, 0x9762, 0x5206, 0x6790],
                Warning ([0x6B64, 0x8655, 0x5C07, 0x986F, 0x793A, 0x53EF, 0x758A, 0x52A0, 0x6280,
                          0x8853, 0x6307, 0x6A19, 0x7684, 0x4E92, 0x52D5, 0x5F0F] @ asc '' K ''
                           @ [0x7DDA, 0x5716, 0x3002])]),
              ([0x5FC3, 0x7406, 0x9762] @ asc '' (Sentiment)'',
               [Header [0x5FC3, 0x7406, 0x9762, 0x5206, 0x6790],
                Warning ([0x6B64, 0x8655, 0x5C07, 0x986F, 0x793A] @ asc '' VIX ''
                           @ [0x6050, 0x614C, 0x6307, 0x6578, 0x5716, 0x8207, 0x65B0, 0x805E,
                              0x60C5, 0x7DD2, 0x5206, 0x6790, 0x7D50, 0x679C, 0x3002])]),
              ([0x7B56, 0x7565, 0x56DE, 0x6E2C] @ asc '' (Backtest)'',
               [Header [0x7B56, 0x7565, 0x56DE, 0x6E2C, 0x7D50, 0x679C],
                Warning ([0x7576, 0x524D, 0x9078, 0x64C7, 0x7B56, 0x7565] @ asc '': **'' @ name
                           @ asc ''**'' @ [0x3002, 0x56DE, 0x6E2C, 0x7D50, 0x679C, 0x5C07, 0x5728,
                                           0x6B64, 0x8655, 0x5448, 0x73FE, 0x3002]),
                Subheader ([0x7E3E, 0x6548, 0x6307, 0x6A19] @ asc '' (Performance Metrics)''),
                DataFrame
                  [([0x6307, 0x6A19],
                    [[0x5E74, 0x5316, 0x5831, 0x916C, 0x7387], [0x6700, 0x5927, 0x56DE, 0x64A4],
                     [0x590F, 0x666E, 0x6BD4, 0x7387]]),
                   ([0x6578, 0x503C], [asc ''25.5%'', asc ''-15.2%'', asc ''1.5''])],
                Subheader ([0x6B0A, 0x76CA, 0x66F2, 0x7DDA, 0x5716] @ asc '' (Equity Curve)'')])]"
    using r name key controls sliders some_slider len content
    by (simp only: simp_thms)
  then show ?thesis
    by blast
qed

theorem page_is_controls_and_placeholder_tabs_witness:
  "selectable (untouched\<lparr>w_ticker := Some (asc ''msft''), w_start := Some (736273, 739000)\<rparr>) \<and>
   3650 < today (runtime_on 739923) \<and> today (runtime_on 739923) \<le> 3652059 \<and>
   map_sum id (map fst \<circ> content_tabs)
     (app (runtime_on 739923)
        (untouched\<lparr>w_ticker := Some (asc ''msft''), w_start := Some (736273, 739000)\<rparr>)) =
     Inr [[0x7E3D, 0x89BD] @ asc '' (Overview)'',
          [0x57FA, 0x672C, 0x9762] @ asc '' (Fundamental)'',
          [0x6280, 0x8853, 0x9762] @ asc '' (Technical)'',
          [0x5FC3, 0x7406, 0x9762] @ asc '' (Sentiment)'',
          [0x7B56, 0x7565, 0x56DE, 0x6E2C] @ asc '' (Backtest)''] \<and>
   map_sum id (\<lambda>pg. snd (content_tabs pg ! 1))
     (app (runtime_on 739923)
        (untouched\<lparr>w_ticker := Some (asc ''msft''), w_start := Some (736273, 739000)\<rparr>)) =
     Inr [Header [0x57FA, 0x672C, 0x9762, 0x5206, 0x6790],
          Warning [0x6B64, 0x8655, 0x5C07, 0x986F, 0x793A, 0x8CA1, 0x52D9, 0x5831, 0x8868,
                   0x8DA8, 0x52E2, 0x5716, 0x8207, 0x8CA1, 0x52D9, 0x6BD4, 0x7387, 0x8868,
                   0x683C, 0x3002]] \<and>
   map_sum id (\<lambda>pg. DateInput [0x8D77, 0x59CB, 0x65E5, 0x671F] 736273 739000 \<in> set (sidebar pg))
     (app (runtime_on 739923)
        (untouched\<lparr>w_ticker := Some (asc ''msft''), w_start := Some (736273, 739000)\<rparr>)) =
     Inr True"
proof -
  have sel: "selectable
      (untouched\<lparr>w_ticker := Some (asc ''msft''), w_start := Some (736273, 739000)\<rparr>)"
    by (simp add: selectable_def offered_def untouched_fields)
  have day: "3650 < today (runtime_on 739923)" "today (runtime_on 739923) \<le> 3652059"
    by (simp_all add: runtime_on_fields)
  have start: "start_date 736273
      (untouched\<lparr>w_ticker := Some (asc ''msft''), w_start := Some (736273, 739000)\<rparr>) = 739000"
    by (simp add: start_date_def date_input_def date_offered_sample)
  from page_is_controls_and_placeholder_tabs [OF sel day]
  obtain pg where
    "app (runtime_on 739923)
       (untouched\<lparr>w_ticker := Some (asc ''msft''), w_start := Some (736273, 739000)\<rparr>) = Inr pg"
    "map fst (content_tabs pg) =
       [[0x7E3D, 0x89BD] @ asc '' (Overview)'',
        [0x57FA, 0x672C, 0x9762] @ asc '' (Fundamental)'',
        [0x6280, 0x8853, 0x9762] @ asc '' (Technical)'',
        [0x5FC3, 0x7406, 0x9762] @ asc '' (Sentiment)'',
        [0x7B56, 0x7565, 0x56DE, 0x6E2C] @ asc '' (Backtest)'']"
    "snd (content_tabs pg ! 1) =
       [Header [0x57FA, 0x672C, 0x9762, 0x5206, 0x6790],
        Warning [0x6B64, 0x8655, 0x5C07, 0x986F, 0x793A, 0x8CA1, 0x52D9, 0x5831, 0x8868,
                 0x8DA8, 0x52E2, 0x5716, 0x8207, 0x8CA1, 0x52D9, 0x6BD4, 0x7387, 0x8868,
                 0x683C, 0x3002]]"
    "DateInput [0x8D77, 0x59CB, 0x65E5, 0x671F] (today (runtime_on 739923) - 3650)
       (start_date (today (runtime_on 739923) - 3650)
          (untouched\<lparr>w_ticker := Some (asc ''msft''), w_start := Some (736273, 739000)\<rparr>))
       \<in> set (sidebar pg)"
    by force
  then show ?thesis
    using sel day by (simp add: start runtime_on_fields)
qed

section \<open>The periods of the moving averages\<close>

lemma fast_ma_range:
  "selectable w \<Longrightarrow> 5 \<le> fast_ma w \<and> fast_ma w \<le> 60"
  by (cases "w_fast_ma w")
     (simp_all add: selectable_def offered_def fast_ma_def slider_def fast_ma_slider_def)

lemma slow_ma_range:
  "selectable w \<Longrightarrow> 50 \<le> slow_ma w \<and> slow_ma w \<le> 300"
  by (cases "w_slow_ma w")
     (simp_all add: selectable_def offered_def slow_ma_def slider_def slow_ma_slider_def)

lemma golden_cross_run:
  "app (runtime_on 739923) (untouched\<lparr>w_fast_ma := Some 60, w_slow_ma := Some 50, w_run := True\<rparr>) =
     Inr \<lparr> config = set_page_config,
           sidebar = sidebar_elements (runtime_on 739923)
                       (untouched\<lparr>w_fast_ma := Some 60, w_slow_ma := Some 50, w_run := True\<rparr>)
                       736273
                       (Some [0x5747, 0x7DDA, 0x4EA4, 0x53C9, 0x7B56, 0x7565]) (asc ''GoldenCross''),
           main_area = main_elements (runtime_on 739923)
                       (untouched\<lparr>w_fast_ma := Some 60, w_slow_ma := Some 50, w_run := True\<rparr>)
                       736273
                         (Some [0x5747, 0x7DDA, 0x4EA4, 0x53C9, 0x7B56, 0x7565]) \<rparr>"
  using untouched_run
    [of 739923 "untouched\<lparr>w_fast_ma := Some 60, w_slow_ma := Some 50, w_run := True\<rparr>"]
  by (simp add: untouched_fields start_date_def date_input_def)

lemma golden_cross_inputs:
  "selectable (untouched\<lparr>w_fast_ma := Some 60, w_slow_ma := Some 50, w_run := True\<rparr>)"
  "selected_strategy_key (untouched\<lparr>w_fast_ma := Some 60, w_slow_ma := Some 50, w_run := True\<rparr>)
     = Inr (asc ''GoldenCross'')"
  "fast_ma (untouched\<lparr>w_fast_ma := Some 60, w_slow_ma := Some 50, w_run := True\<rparr>) = 60"
  "slow_ma (untouched\<lparr>w_fast_ma := Some 60, w_slow_ma := Some 50, w_run := True\<rparr>) = 50"
  by (simp_all add: selectable_def untouched_def offered_def strategy_options_def
      selected_strategy_key_def selected_strategy_name_def selectbox_def
      fast_ma_def slow_ma_def slider_def
      rsi_buy_slider_def rsi_sell_slider_def
      fast_ma_slider_def slow_ma_slider_def period_slider_def)

text \<open>
  Claim C1, as the program has it. Every pair of values that can be set on the two
  sliders of the moving averages has the fast period in 5 to 60 and the slow period in
  50 to 300, so the fast period is below the slow one unless both lie in the overlap of
  the two ranges, \<open>50 \<le> slow_ma \<le> fast_ma \<le> 60\<close>. No pair is rejected: the script
  compares the two values nowhere, the run returns a page that shows both sliders as
  set, and a click on the button is answered by the message that the request has been
  sent.
\<close>

theorem golden_cross_pairs_unvalidated:
  assumes "selectable w" and "selected_strategy_key w = Inr (asc ''GoldenCross'')"
    and "w_run w" and "3650 < today rt" and "today rt \<le> 3652059"
  shows "5 \<le> fast_ma w \<and> fast_ma w \<le> 60 \<and> 50 \<le> slow_ma w \<and> slow_ma w \<le> 300 \<and>
         (fast_ma w < slow_ma w \<or> (50 \<le> slow_ma w \<and> slow_ma w \<le> fast_ma w \<and> fast_ma w \<le> 60)) \<and>
         (\<exists>pg. app rt w = Inr pg \<and>
            Slider fast_ma_slider (fast_ma w) \<in> set (sidebar pg) \<and>
            Slider slow_ma_slider (slow_ma w) \<in> set (sidebar pg) \<and>
            last (sidebar pg) =
              Success ([0x56DE, 0x6E2C, 0x8ACB, 0x6C42, 0x5DF2, 0x9001, 0x51FA] @ asc ''...''))"
proof -
  define start where "start = today rt - 3650"
  from assms(1,4,5) obtain key where
    key: "selected_strategy_key w = Inr key" and
    run: "app rt w =
       Inr \<lparr> config = set_page_config,
             sidebar = sidebar_elements rt w start (selected_strategy_name w) key,
             main_area = main_elements rt w (start_date start w)
                           (selected_strategy_name w) \<rparr>"
    unfolding start_def by (rule app_returns)
  from key assms(2) have k: "key = asc ''GoldenCross''" by simp
  have sl: "Slider fast_ma_slider (fast_ma w)
              \<in> set (sidebar_elements rt w start (selected_strategy_name w) (asc ''GoldenCross'')) \<and>
            Slider slow_ma_slider (slow_ma w)
              \<in> set (sidebar_elements rt w start (selected_strategy_name w) (asc ''GoldenCross''))"
    by (simp add: sidebar_elements_def parameter_controls_def)
  have la: "last (sidebar_elements rt w start (selected_strategy_name w) (asc ''GoldenCross'')) =
           Success ([0x56DE, 0x6E2C, 0x8ACB, 0x6C42, 0x5DF2, 0x9001, 0x51FA] @ asc ''...'')"
    using assms(3) by (simp add: sidebar_elements_def run_backtest_button_def)
  have "\<exists>pg. app rt w = Inr pg \<and>
            Slider fast_ma_slider (fast_ma w) \<in> set (sidebar pg) \<and>
            Slider slow_ma_slider (slow_ma w) \<in> set (sidebar pg) \<and>
            last (sidebar pg) =
              Success ([0x56DE, 0x6E2C, 0x8ACB, 0x6C42, 0x5DF2, 0x9001, 0x51FA] @ asc ''...'')"
    using sl la by (simp add: run k)
  with fast_ma_range [OF assms(1)] slow_ma_range [OF assms(1)]
  show ?thesis by auto
qed

theorem golden_cross_pairs_unvalidated_witness:
  "selectable (untouched\<lparr>w_fast_ma := Some 60, w_slow_ma := Some 50, w_run := True\<rparr>) \<and>
   selected_strategy_key (untouched\<lparr>w_fast_ma := Some 60, w_slow_ma := Some 50, w_run := True\<rparr>)
     = Inr (asc ''GoldenCross'') \<and>
   w_run (untouched\<lparr>w_fast_ma := Some 60, w_slow_ma := Some 50, w_run := True\<rparr>) \<and>
   3650 < today (runtime_on 739923) \<and> today (runtime_on 739923) \<le> 3652059 \<and>
   map_sum id (last \<circ> sidebar)
     (app (runtime_on 739923) (untouched\<lparr>w_fast_ma := Some 60, w_slow_ma := Some 50, w_run := True\<rparr>))
     = Inr (Success ([0x56DE, 0x6E2C, 0x8ACB, 0x6C42, 0x5DF2, 0x9001, 0x51FA] @ asc ''...''))"
proof -
  have r: "w_run (untouched\<lparr>w_fast_ma := Some 60, w_slow_ma := Some 50, w_run := True\<rparr>)"
    by simp
  have day: "3650 < today (runtime_on 739923)" "today (runtime_on 739923) \<le> 3652059"
    by (simp_all add: runtime_on_fields)
  from golden_cross_pairs_unvalidated
    [OF golden_cross_inputs(1) golden_cross_inputs(2) r day]
  obtain pg where
    "app (runtime_on 739923)
       (untouched\<lparr>w_fast_ma := Some 60, w_slow_ma := Some 50, w_run := True\<rparr>) = Inr pg"
    "last (sidebar pg) =
       Success ([0x56DE, 0x6E2C, 0x8ACB, 0x6C42, 0x5DF2, 0x9001, 0x51FA] @ asc ''...'')"
    by blast
  then show ?thesis
    using golden_cross_inputs(1,2) r day by simp
qed

text \<open>
  Claim C1, as the specification has it, fails: the fast period 60 and the slow period
  50 can both be set, \<open>60 < 50\<close> does not hold, and the run started by a click on the
  button returns a page whose sidebar shows both values and ends with the message that
  the request has been sent. The day of the run is 2026-11-03.
\<close>

theorem golden_cross_order_counterexample:
  "selectable (untouched\<lparr>w_fast_ma := Some 60, w_slow_ma := Some 50, w_run := True\<rparr>) \<and>
   selected_strategy_key (untouched\<lparr>w_fast_ma := Some 60, w_slow_ma := Some 50, w_run := True\<rparr>)
     = Inr (asc ''GoldenCross'') \<and>
   fast_ma (untouched\<lparr>w_fast_ma := Some 60, w_slow_ma := Some 50, w_run := True\<rparr>) = 60 \<and>
   slow_ma (untouched\<lparr>w_fast_ma := Some 60, w_slow_ma := Some 50, w_run := True\<rparr>) = 50 \<and>
   \<not> fast_ma (untouched\<lparr>w_fast_ma := Some 60, w_slow_ma := Some 50, w_run := True\<rparr>)
       < slow_ma (untouched\<lparr>w_fast_ma := Some 60, w_slow_ma := Some 50, w_run := True\<rparr>) \<and>
   map_sum id sidebar
     (app (runtime_on 739923) (untouched\<lparr>w_fast_ma := Some 60, w_slow_ma := Some 50, w_run := True\<rparr>))
     = Inr [Title ([0x1F4C8] @ asc '' '' @ [0x80A1, 0x5E02, 0x5206, 0x6790, 0x5100]),
            TextInput [0x8ACB, 0x8F38, 0x5165, 0x7F8E, 0x80A1, 0x4EE3, 0x78BC] (asc ''AAPL''),
            Subheader ([0x1F4C5] @ asc '' '' @ [0x5206, 0x6790, 0x65E5, 0x671F, 0x7BC4, 0x570D]),
            DateInput [0x8D77, 0x59CB, 0x65E5, 0x671F] 736273 736273,
            DateInput [0x7D50, 0x675F, 0x65E5, 0x671F] 739923 739923,
            Subheader ([0x2699, 0xFE0F] @ asc '' '' @ [0x7B56, 0x7565, 0x56DE, 0x6E2C, 0x8A2D, 0x5B9A]),
            Selectbox [0x9078, 0x64C7, 0x56DE, 0x6E2C, 0x7B56, 0x7565]
              [[0x5747, 0x7DDA, 0x4EA4, 0x53C9, 0x7B56, 0x7565], [0x7A81, 0x7834, 0x7B56, 0x7565],
               [0x591A, 0x56E0, 0x5B50, 0x7D9C, 0x5408, 0x7B56, 0x7565]]
              (Some [0x5747, 0x7DDA, 0x4EA4, 0x53C9, 0x7B56, 0x7565]),
            Markdown (asc ''---''),
            Subheader [0x53C3, 0x6578, 0x8ABF, 0x6574],
            Slider fast_ma_slider 60,
            Slider slow_ma_slider 50,
            Info ([0x7B56, 0x7565, 0x53C3, 0x6578] @ asc '': '' @ [0x77ED, 0x671F] @ asc '' 60 ''
                    @ [0x65E5] @ asc '', '' @ [0x9577, 0x671F] @ asc '' 50 '' @ [0x65E5]),
            Markdown (asc ''---''),
            Button ([0x1F680] @ asc '' '' @ [0x57F7, 0x884C, 0x7B56, 0x7565, 0x56DE, 0x6E2C]),
            Success ([0x56DE, 0x6E2C, 0x8ACB, 0x6C42, 0x5DF2, 0x9001, 0x51FA] @ asc ''...'')]"
proof -
  have d: "digits 60 = [54, 48]" "digits 50 = [53, 48]"
    by code_simp+
  have sb: "sidebar_elements (runtime_on 739923)
                       (untouched\<lparr>w_fast_ma := Some 60, w_slow_ma := Some 50, w_run := True\<rparr>)
                       736273
                       (Some [0x5747, 0x7DDA, 0x4EA4, 0x53C9, 0x7B56, 0x7565]) (asc ''GoldenCross'')
     = [Title ([0x1F4C8] @ asc '' '' @ [0x80A1, 0x5E02, 0x5206, 0x6790, 0x5100]),
            TextInput [0x8ACB, 0x8F38, 0x5165, 0x7F8E, 0x80A1, 0x4EE3, 0x78BC] (asc ''AAPL''),
            Subheader ([0x1F4C5] @ asc '' '' @ [0x5206, 0x6790, 0x65E5, 0x671F, 0x7BC4, 0x570D]),
            DateInput [0x8D77, 0x59CB, 0x65E5, 0x671F] 736273 736273,
            DateInput [0x7D50, 0x675F, 0x65E5, 0x671F] 739923 739923,
            Subheader ([0x2699, 0xFE0F] @ asc '' '' @ [0x7B56, 0x7565, 0x56DE, 0x6E2C, 0x8A2D, 0x5B9A]),
            Selectbox [0x9078, 0x64C7, 0x56DE, 0x6E2C, 0x7B56, 0x7565]
              [[0x5747, 0x7DDA, 0x4EA4, 0x53C9, 0x7B56, 0x7565], [0x7A81, 0x7834, 0x7B56, 0x7565],
               [0x591A, 0x56E0, 0x5B50, 0x7D9C, 0x5408, 0x7B56, 0x7565]]
              (Some [0x5747, 0x7DDA, 0x4EA4, 0x53C9, 0x7B56, 0x7565]),
            Markdown (asc ''---''),
            Subheader [0x53C3, 0x6578, 0x8ABF, 0x6574],
            Slider fast_ma_slider 60,
            Slider slow_ma_slider 50,
            Info ([0x7B56, 0x7565, 0x53C3, 0x6578] @ asc '': '' @ [0x77ED, 0x671F] @ asc '' 60 ''
                    @ [0x65E5] @ asc '', '' @ [0x9577, 0x671F] @ asc '' 50 '' @ [0x65E5]),
            Markdown (asc ''---''),
            Button ([0x1F680] @ asc '' '' @ [0x57F7, 0x884C, 0x7B56, 0x7565, 0x56DE, 0x6E2C]),
            Success ([0x56DE, 0x6E2C, 0x8ACB, 0x6C42, 0x5DF2, 0x9001, 0x51FA] @ asc ''...'')]"
    by (simp add: sidebar_elements_def parameter_controls_def run_backtest_button_def
        str_int_def d text_input_def start_date_def end_date_def date_input_def
        fast_ma_def slow_ma_def
        slider_def runtime_on_def untouched_def strategy_options_def asc_def)
  show ?thesis
    by (simp add: golden_cross_inputs golden_cross_run sb)
qed

section \<open>The clock\<close>

lemma iso_dates:
  "isoformat 736273 = asc ''2016-11-05''" "isoformat 736274 = asc ''2016-11-06''"
  "isoformat 739923 = asc ''2026-11-03''" "isoformat 739924 = asc ''2026-11-04''"
  by code_simp+

lemma sidebar_dates:
  "sidebar_elements rt w dflt name key ! 3 =
     DateInput [0x8D77, 0x59CB, 0x65E5, 0x671F] dflt (start_date dflt w)"
  "sidebar_elements rt w dflt name key ! 4 =
     DateInput [0x7D50, 0x675F, 0x65E5, 0x671F] (today rt) (end_date rt w)"
  by (simp_all add: sidebar_elements_def)

lemma default_start_date_Inr:
  "default_start_date rt = Inr dflt \<Longrightarrow> dflt = today rt - 3650"
  by (simp add: default_start_date_def date_sub_days_def split: if_splits)

text \<open>
  Claim C2, as the program has it. The script reads the clock (line 47) and hands the
  day it reads to the two date inputs as their value arguments. Two runs with the same
  widget values and the same \<open>str.upper\<close> return the same result when they read the same
  day. When both return a page, the pages agree in everything but the two date inputs
  of the sidebar and the line of the period under the title: the page configuration, the
  rest of the sidebar, the title, the five content tabs with the chart and what follows
  them are the same whatever the clock reads. The date inputs show the day read, so the
  pages of two runs that read different days are different pages, whatever the widget
  values; and a date that the user has set on the start date input of another day is
  not kept: the input of this day returns its own value argument.
\<close>

theorem page_depends_on_clock_through_date_inputs:
  assumes "upper rt = upper rt'"
  shows "(today rt = today rt' \<longrightarrow> app rt w = app rt' w) \<and>
         (app rt w = Inr pg \<and> app rt' w = Inr pg' \<longrightarrow>
            config pg = config pg' \<and>
            take 3 (sidebar pg) = take 3 (sidebar pg') \<and>
            drop 5 (sidebar pg) = drop 5 (sidebar pg') \<and>
            hd (main_area pg) = hd (main_area pg') \<and>
            drop 2 (main_area pg) = drop 2 (main_area pg') \<and>
            content_tabs pg = content_tabs pg' \<and>
            sidebar pg ! 3 =
              DateInput [0x8D77, 0x59CB, 0x65E5, 0x671F] (today rt - 3650)
                (start_date (today rt - 3650) w) \<and>
            sidebar pg ! 4 =
              DateInput [0x7D50, 0x675F, 0x65E5, 0x671F] (today rt) (end_date rt w) \<and>
            (w_start w = Some (v, d) \<and> v \<noteq> today rt - 3650 \<longrightarrow>
               sidebar pg ! 3 =
                 DateInput [0x8D77, 0x59CB, 0x65E5, 0x671F] (today rt - 3650) (today rt - 3650)) \<and>
            (today rt \<noteq> today rt' \<longrightarrow> sidebar pg ! 4 \<noteq> sidebar pg' ! 4 \<and> pg \<noteq> pg'))"
proof -
  have t: "ticker rt w = ticker rt' w"
    by (simp add: ticker_def assms)
  have same: "app rt w = app rt' w" if "today rt = today rt'"
  proof -
    from that assms have "rt = rt'" by simp
    then show ?thesis by simp
  qed
  have pages: "config pg = config pg' \<and>
            take 3 (sidebar pg) = take 3 (sidebar pg') \<and>
            drop 5 (sidebar pg) = drop 5 (sidebar pg') \<and>
            hd (main_area pg) = hd (main_area pg') \<and>
            drop 2 (main_area pg) = drop 2 (main_area pg') \<and>
            content_tabs pg = content_tabs pg' \<and>
            sidebar pg ! 3 =
              DateInput [0x8D77, 0x59CB, 0x65E5, 0x671F] (today rt - 3650)
                (start_date (today rt - 3650) w) \<and>
            sidebar pg ! 4 =
              DateInput [0x7D50, 0x675F, 0x65E5, 0x671F] (today rt) (end_date rt w) \<and>
            (w_start w = Some (v, d) \<and> v \<noteq> today rt - 3650 \<longrightarrow>
               sidebar pg ! 3 =
                 DateInput [0x8D77, 0x59CB, 0x65E5, 0x671F] (today rt - 3650) (today rt - 3650)) \<and>
            (today rt \<noteq> today rt' \<longrightarrow> sidebar pg ! 4 \<noteq> sidebar pg' ! 4 \<and> pg \<noteq> pg')"
    if r: "app rt w = Inr pg" "app rt' w = Inr pg'"
  proof -
    from r(1) obtain dflt key where
      d: "default_start_date rt = Inr dflt" and
      k: "selected_strategy_key w = Inr key" and
      pg: "pg = \<lparr> config = set_page_config,
              sidebar = sidebar_elements rt w dflt (selected_strategy_name w) key,
              main_area = main_elements rt w (start_date dflt w) (selected_strategy_name w) \<rparr>"
      by (rule app_Inr)
    from r(2) obtain dflt' key' where
      k': "selected_strategy_key w = Inr key'" and
      pg': "pg' = \<lparr> config = set_page_config,
              sidebar = sidebar_elements rt' w dflt' (selected_strategy_name w) key',
              main_area = main_elements rt' w (start_date dflt' w) (selected_strategy_name w) \<rparr>"
      by (rule app_Inr)
    from k k' have key: "key' = key" by simp
    have dflt: "dflt = today rt - 3650"
      using d by (rule default_start_date_Inr)
    have c: "config pg = config pg'"
      by (simp add: pg pg')
    have s1: "take 3 (sidebar pg) = take 3 (sidebar pg')"
      by (simp add: pg pg' sidebar_elements_def)
    have s2: "drop 5 (sidebar pg) = drop 5 (sidebar pg')"
      by (simp add: pg pg' key sidebar_elements_def)
    have m1: "hd (main_area pg) = hd (main_area pg')"
      by (simp add: pg pg' main_elements_def t)
    have m2: "drop 2 (main_area pg) = drop 2 (main_area pg')"
      by (simp add: pg pg' main_elements_def t)
    have tabs: "content_tabs pg = content_tabs pg'"
      by (simp add: pg pg' content_tabs_def content_tabs_main_elements t)
    have d3: "sidebar pg ! 3 =
              DateInput [0x8D77, 0x59CB, 0x65E5, 0x671F] (today rt - 3650)
                (start_date (today rt - 3650) w)"
      by (simp add: pg sidebar_dates dflt)
    have d4: "sidebar pg ! 4 =
              DateInput [0x7D50, 0x675F, 0x65E5, 0x671F] (today rt) (end_date rt w)"
      by (simp add: pg sidebar_dates)
    have d4': "sidebar pg' ! 4 =
              DateInput [0x7D50, 0x675F, 0x65E5, 0x671F] (today rt') (end_date rt' w)"
      by (simp add: pg' sidebar_dates)
    have diff: "sidebar pg ! 4 \<noteq> sidebar pg' ! 4 \<and> pg \<noteq> pg'" if "today rt \<noteq> today rt'"
    proof -
      from that have ne: "sidebar pg ! 4 \<noteq> sidebar pg' ! 4"
        by (simp add: d4 d4')
      then have "pg \<noteq> pg'" by auto
      with ne show ?thesis by simp
    qed
    from diff have diff':
      "today rt \<noteq> today rt' \<longrightarrow> sidebar pg ! 4 \<noteq> sidebar pg' ! 4 \<and> pg \<noteq> pg'"
      by (rule impI)
    have lost: "w_start w = Some (v, d) \<and> v \<noteq> today rt - 3650 \<longrightarrow>
               sidebar pg ! 3 =
                 DateInput [0x8D77, 0x59CB, 0x65E5, 0x671F] (today rt - 3650) (today rt - 3650)"
      by (simp add: d3 start_date_def date_input_def)
    show ?thesis
      by (intro conjI) (rule c s1 s2 m1 m2 tabs d3 d4 lost diff')+
  qed
  from same pages show ?thesis by blast
qed

theorem page_depends_on_clock_through_date_inputs_witness:
  "upper (runtime_on 739923) = upper (runtime_on 739924) \<and>
   today (runtime_on 739923) \<noteq> today (runtime_on 739924) \<and>
   today (runtime_on 739923) = today \<lparr> today = 739923, upper = upper_ascii \<rparr> \<and>
   app (runtime_on 739923) (untouched\<lparr>w_start := Some (736273, 739000)\<rparr>)
     = app \<lparr> today = 739923, upper = upper_ascii \<rparr>
         (untouched\<lparr>w_start := Some (736273, 739000)\<rparr>) \<and>
   \<not> isl (app (runtime_on 739923) (untouched\<lparr>w_start := Some (736273, 739000)\<rparr>)) \<and>
   \<not> isl (app (runtime_on 739924) (untouched\<lparr>w_start := Some (736273, 739000)\<rparr>)) \<and>
   app (runtime_on 739923) (untouched\<lparr>w_start := Some (736273, 739000)\<rparr>)
     \<noteq> app (runtime_on 739924) (untouched\<lparr>w_start := Some (736273, 739000)\<rparr>) \<and>
   map_sum id content_tabs
       (app (runtime_on 739923) (untouched\<lparr>w_start := Some (736273, 739000)\<rparr>))
     = map_sum id content_tabs
         (app (runtime_on 739924) (untouched\<lparr>w_start := Some (736273, 739000)\<rparr>)) \<and>
   map_sum id (\<lambda>pg. sidebar pg ! 3)
       (app (runtime_on 739923) (untouched\<lparr>w_start := Some (736273, 739000)\<rparr>))
     = Inr (DateInput [0x8D77, 0x59CB, 0x65E5, 0x671F] 736273 739000) \<and>
   map_sum id (\<lambda>pg. sidebar pg ! 3)
       (app (runtime_on 739924) (untouched\<lparr>w_start := Some (736273, 739000)\<rparr>))
     = Inr (DateInput [0x8D77, 0x59CB, 0x65E5, 0x671F] 736274 736274)"
proof -
  have u: "upper (runtime_on 739923) = upper (runtime_on 739924)"
    "upper (runtime_on 739923) = upper \<lparr> today = 739923, upper = upper_ascii \<rparr>"
    by (simp_all add: runtime_on_fields)
  have days: "today (runtime_on 739923) \<noteq> today (runtime_on 739924)"
    "today (runtime_on 739923) = today \<lparr> today = 739923, upper = upper_ascii \<rparr>"
    by (simp_all add: runtime_on_fields)
  have s: "start_date 736273 (untouched\<lparr>w_start := Some (736273, 739000)\<rparr>) = 739000"
    "start_date 736274 (untouched\<lparr>w_start := Some (736273, 739000)\<rparr>) = 736274"
    by (simp_all add: start_date_def date_input_def date_offered_sample)
  have sel: "selectable (untouched\<lparr>w_start := Some (736273, 739000)\<rparr>)"
    by (simp add: selectable_def offered_def untouched_fields)
  from sel obtain pg where
    a: "app (runtime_on 739923) (untouched\<lparr>w_start := Some (736273, 739000)\<rparr>) = Inr pg"
    by (rule app_returns [of _ "runtime_on 739923"]) (simp_all add: runtime_on_fields)
  from sel obtain pg' where
    b: "app (runtime_on 739924) (untouched\<lparr>w_start := Some (736273, 739000)\<rparr>) = Inr pg'"
    by (rule app_returns [of _ "runtime_on 739924"]) (simp_all add: runtime_on_fields)
  from page_depends_on_clock_through_date_inputs [OF u(2)] days(2)
  have same: "app (runtime_on 739923) (untouched\<lparr>w_start := Some (736273, 739000)\<rparr>)
     = app \<lparr> today = 739923, upper = upper_ascii \<rparr>
         (untouched\<lparr>w_start := Some (736273, 739000)\<rparr>)"
    by blast
  from page_depends_on_clock_through_date_inputs [OF u(1)] a b
  have two: "content_tabs pg = content_tabs pg'"
    "sidebar pg ! 3 =
       DateInput [0x8D77, 0x59CB, 0x65E5, 0x671F] (today (runtime_on 739923) - 3650)
         (start_date (today (runtime_on 739923) - 3650)
            (untouched\<lparr>w_start := Some (736273, 739000)\<rparr>))"
    "today (runtime_on 739923) \<noteq> today (runtime_on 739924) \<longrightarrow> pg \<noteq> pg'"
    by blast+
  have kept: "w_start (untouched\<lparr>w_start := Some (736273, 739000)\<rparr>) = Some (736273, 739000)
      \<and> 736273 \<noteq> today (runtime_on 739924) - 3650"
    by (simp add: runtime_on_fields)
  from page_depends_on_clock_through_date_inputs
    [OF u(1) [symmetric], where v = 736273 and d = 739000] b a kept
  have d3': "sidebar pg' ! 3 =
       DateInput [0x8D77, 0x59CB, 0x65E5, 0x671F] (today (runtime_on 739924) - 3650)
         (today (runtime_on 739924) - 3650)"
    by blast
  from two(3) days(1) have ne: "pg \<noteq> pg'"
    by (rule mp)
  have c5: "\<not> isl (app (runtime_on 739923) (untouched\<lparr>w_start := Some (736273, 739000)\<rparr>))"
    by (simp add: a)
  have c6: "\<not> isl (app (runtime_on 739924) (untouched\<lparr>w_start := Some (736273, 739000)\<rparr>))"
    by (simp add: b)
  have c7: "app (runtime_on 739923) (untouched\<lparr>w_start := Some (736273, 739000)\<rparr>)
     \<noteq> app (runtime_on 739924) (untouched\<lparr>w_start := Some (736273, 739000)\<rparr>)"
    by (simp add: a b ne)
  have c8: "map_sum id content_tabs
       (app (runtime_on 739923) (untouched\<lparr>w_start := Some (736273, 739000)\<rparr>))
     = map_sum id content_tabs
         (app (runtime_on 739924) (untouched\<lparr>w_start := Some (736273, 739000)\<rparr>))"
    by (simp add: a b two(1))
  have c9: "map_sum id (\<lambda>pg. sidebar pg ! 3)
       (app (runtime_on 739923) (untouched\<lparr>w_start := Some (736273, 739000)\<rparr>))
     = Inr (DateInput [0x8D77, 0x59CB, 0x65E5, 0x671F] 736273 739000)"
    using two(2) by (simp add: a runtime_on_fields s)
  have c10: "map_sum id (\<lambda>pg. sidebar pg ! 3)
       (app (runtime_on 739924) (untouched\<lparr>w_start := Some (736273, 739000)\<rparr>))
     = Inr (DateInput [0x8D77, 0x59CB, 0x65E5, 0x671F] 736274 736274)"
    using d3' by (simp add: b runtime_on_fields s)
  show ?thesis
    by (intro conjI) (rule u(1) days same c5 c6 c7 c8 c9 c10)+
qed

text \<open>
  Claim C2, as the specification has it, fails: with no widget touched, the run of
  2026-11-03 and the run of 2026-11-04 return different pages. The period under the
  title reads 2016-11-05 to 2026-11-03 in the first and 2016-11-06 to 2026-11-04 in the
  second.
\<close>

theorem clock_changes_page_counterexample:
  "upper (runtime_on 739923) = upper (runtime_on 739924) \<and>
   app (runtime_on 739923) untouched \<noteq> app (runtime_on 739924) untouched \<and>
   map_sum id (\<lambda>pg. main_area pg ! 1) (app (runtime_on 739923) untouched) =
     Inr (Markdown ([0x5206, 0x6790, 0x671F, 0x9593] @ asc '': **2016-11-05** ''
                      @ [0x81F3] @ asc '' **2026-11-03**'')) \<and>
   map_sum id (\<lambda>pg. main_area pg ! 1) (app (runtime_on 739924) untouched) =
     Inr (Markdown ([0x5206, 0x6790, 0x671F, 0x9593] @ asc '': **2016-11-06** ''
                      @ [0x81F3] @ asc '' **2026-11-04**'')) \<and>
   map_sum id (\<lambda>pg. sidebar pg ! 4) (app (runtime_on 739923) untouched) =
     Inr (DateInput [0x7D50, 0x675F, 0x65E5, 0x671F] 739923 739923) \<and>
   map_sum id (\<lambda>pg. sidebar pg ! 4) (app (runtime_on 739924) untouched) =
     Inr (DateInput [0x7D50, 0x675F, 0x65E5, 0x671F] 739924 739924)"
proof -
  have a: "map_sum id (\<lambda>pg. main_area pg ! 1) (app (runtime_on 739923) untouched) =
     Inr (Markdown ([0x5206, 0x6790, 0x671F, 0x9593] @ asc '': **2016-11-05** ''
                      @ [0x81F3] @ asc '' **2026-11-03**''))"
    by (simp add: first_run main_elements_def iso_dates end_date_def date_input_def
        untouched_fields runtime_on_fields asc_def)
  have b: "map_sum id (\<lambda>pg. main_area pg ! 1) (app (runtime_on 739924) untouched) =
     Inr (Markdown ([0x5206, 0x6790, 0x671F, 0x9593] @ asc '': **2016-11-06** ''
                      @ [0x81F3] @ asc '' **2026-11-04**''))"
    by (simp add: first_run main_elements_def iso_dates end_date_def date_input_def
        untouched_fields runtime_on_fields asc_def)
  have c: "map_sum id (\<lambda>pg. sidebar pg ! 4) (app (runtime_on 739923) untouched) =
     Inr (DateInput [0x7D50, 0x675F, 0x65E5, 0x671F] 739923 739923)"
    by (simp add: first_run sidebar_dates end_date_def date_input_def untouched_fields
        runtime_on_fields)
  have d: "map_sum id (\<lambda>pg. sidebar pg ! 4) (app (runtime_on 739924) untouched) =
     Inr (DateInput [0x7D50, 0x675F, 0x65E5, 0x671F] 739924 739924)"
    by (simp add: first_run sidebar_dates end_date_def date_input_def untouched_fields
        runtime_on_fields)
  have "map_sum id (\<lambda>pg. sidebar pg ! 4) (app (runtime_on 739923) untouched)
          \<noteq> map_sum id (\<lambda>pg. sidebar pg ! 4) (app (runtime_on 739924) untouched)"
    unfolding c d by simp
  then have "app (runtime_on 739923) untouched \<noteq> app (runtime_on 739924) untouched"
    by auto
  with a b c d show ?thesis
    by (simp add: runtime_on_fields)
qed

end
